theory Spec2Isabelle
  imports Complex_Main "HOL-Library.Char_ord" "HOL-Library.List_Lexorder"
    "HOL-Library.Product_Lexorder"
begin

section \<open>Data model\<close>

text \<open>
  The program is a pandas script. A Python \<open>str\<close> is modelled as a \<open>string\<close> whose
  characters are the code points below 256. A Python \<open>float\<close> is a finite value, one of
  the two infinities, or not-a-number. A finite double is represented by a rational; the
  range of binary64 is modelled (a value too large is infinite or raises, a value too small
  is zero), the rounding of the mantissa is not.
\<close>

datatype pyfloat = Fin rat | PInf | NInf | NaN

text \<open>
  Exceptions are values. Every \<open>except Exception\<close> of the source catches all of them.
  \<open>NotASeries\<close> stands for the exception that the program runs into when it uses a frame
  where it expects a series.
\<close>

datatype pyerr = ValueError | IndexError | KeyError | OverflowError | NotASeries | LibError

text \<open>A \<open>pd.Timestamp\<close>: year, month, day, hour, minute, second. \<open>None\<close> is \<open>pd.NaT\<close>.\<close>

type_synonym timestamp = "nat \<times> nat \<times> nat \<times> nat \<times> nat \<times> nat"

text \<open>
  A raw cell as the decoder delivers it: missing (\<open>NaN\<close>), an integer, a float, text, or a
  timestamp.
\<close>

datatype cell = Null | IntC int | FloatC pyfloat | Str string | Stamp timestamp

text \<open>
  The library functions the program calls but does not define are parameters of the model:
  \<^item> \<open>nfkd_ascii s\<close> is \<open>unicodedata.normalize("NFKD", s).encode("ascii", "ignore").decode("ascii")\<close>;
  \<^item> \<open>repr_float\<close> and \<open>str_stamp\<close> are \<open>str\<close> on a float and on a timestamp;
  \<^item> \<open>to_datetime fmt s\<close> is \<open>pd.to_datetime(s, format=fmt, dayfirst=True, errors="raise")\<close>,
    with \<open>fmt = None\<close> for the call without a format; \<open>Inl\<close> is a raised exception;
  \<^item> \<open>to_numeric s\<close> is \<open>pd.to_numeric(s, errors="coerce")\<close>.
\<close>

record pylib =
  nfkd_ascii :: "string \<Rightarrow> string"
  repr_float :: "pyfloat \<Rightarrow> string"
  str_stamp :: "timestamp \<Rightarrow> string"
  to_datetime :: "string option \<Rightarrow> string \<Rightarrow> pyerr + timestamp option"
  to_numeric :: "string \<Rightarrow> pyerr + pyfloat"

text \<open>
  \<open>st.session_state\<close>: the two keyword lists, which the page sets on every run before a
  file is processed.
\<close>

record session =
  kw_comisiones :: "string list"
  kw_impuestos :: "string list"

text \<open>
  A \<open>DataFrame\<close> with the default positional index: the column labels and the rows, each
  row holding one cell per column. Labels may repeat.
\<close>

record dataframe =
  columns :: "string list"
  rows :: "cell list list"

section \<open>Strings\<close>

definition is_space :: "char \<Rightarrow> bool" where
  "is_space c = ((of_char c :: nat) \<in> {9, 10, 11, 12, 13, 28, 29, 30, 31, 32, 133, 160})"

definition is_digit :: "char \<Rightarrow> bool" where
  "is_digit c = (48 \<le> (of_char c :: nat) \<and> (of_char c :: nat) \<le> 57)"

definition is_alnum_ascii :: "char \<Rightarrow> bool" where
  "is_alnum_ascii c = (is_digit c \<or> (65 \<le> (of_char c :: nat) \<and> (of_char c :: nat) \<le> 90)
     \<or> (97 \<le> (of_char c :: nat) \<and> (of_char c :: nat) \<le> 122))"

text \<open>\<open>s.strip()\<close> and \<open>s.strip("_")\<close>.\<close>

definition strip_where :: "(char \<Rightarrow> bool) \<Rightarrow> string \<Rightarrow> string" where
  "strip_where p s = rev (dropWhile p (rev (dropWhile p s)))"

definition strip :: "string \<Rightarrow> string" where
  "strip s = strip_where is_space s"

text \<open>\<open>s.lower()\<close> on code points below 256.\<close>

definition lower_char :: "char \<Rightarrow> char" where
  "lower_char c = (let n = (of_char c :: nat) in
     if (65 \<le> n \<and> n \<le> 90) \<or> (192 \<le> n \<and> n \<le> 222 \<and> n \<noteq> 215) then char_of (n + 32) else c)"

definition lower :: "string \<Rightarrow> string" where
  "lower s = map lower_char s"

text \<open>\<open>k in t\<close> on strings.\<close>

fun starts_with :: "string \<Rightarrow> string \<Rightarrow> bool" where
  "starts_with [] t = True"
| "starts_with (k # ks) [] = False"
| "starts_with (k # ks) (c # cs) = (k = c \<and> starts_with ks cs)"

fun contains :: "string \<Rightarrow> string \<Rightarrow> bool" where
  "contains k [] = (k = [])"
| "contains k (c # cs) = (starts_with k (c # cs) \<or> contains k cs)"

text \<open>\<open>any(k in t for k in kws)\<close>.\<close>

definition any_in :: "string list \<Rightarrow> string \<Rightarrow> bool" where
  "any_in kws t = list_ex (\<lambda>k. contains k t) kws"

text \<open>\<open>s.replace(a, "")\<close> and \<open>s.replace(a, b)\<close> for one-character \<open>a\<close> and \<open>b\<close>.\<close>

definition remove_char :: "char \<Rightarrow> string \<Rightarrow> string" where
  "remove_char a s = filter (\<lambda>c. c \<noteq> a) s"

definition replace_char :: "char \<Rightarrow> char \<Rightarrow> string \<Rightarrow> string" where
  "replace_char a b s = map (\<lambda>c. if c = a then b else c) s"

section \<open>The builtin \<open>float\<close> on a string\<close>

text \<open>
  \<open>float(s)\<close> strips white space, reads an optional sign and then \<open>inf\<close>, \<open>infinity\<close> or
  \<open>nan\<close> in any case, or a decimal number with an optional exponent; digits may be
  separated by single underscores. Anything else raises \<open>ValueError\<close>. The white space of
  \<open>float\<close> is narrower than that of \<open>str.strip\<close>: the separators 28 to 31 are not part of it.
\<close>

definition is_float_space :: "char \<Rightarrow> bool" where
  "is_float_space c = ((of_char c :: nat) \<in> {9, 10, 11, 12, 13, 32, 133, 160})"

text \<open>
  The range of binary64. A value whose magnitude reaches \<open>2^1024 - 2^970\<close>, half way between
  the largest double and \<open>2^1024\<close>, rounds out of the range; a value of magnitude at most
  \<open>2^-1075\<close>, half of the least positive double, rounds to zero.
\<close>

definition double_overflows :: "rat \<Rightarrow> bool" where
  "double_overflows q = (2 ^ 1024 - 2 ^ 970 \<le> \<bar>q\<bar>)"

definition double_of_rat :: "rat \<Rightarrow> pyfloat" where
  "double_of_rat q =
     (if double_overflows q then (if 0 < q then PInf else NInf)
      else if \<bar>q\<bar> \<le> 1 / 2 ^ 1075 then Fin 0
      else Fin q)"

text \<open>\<open>float(x)\<close> on an \<open>int\<close> raises when the integer is out of the range.\<close>

definition float_of_int :: "int \<Rightarrow> pyerr + pyfloat" where
  "float_of_int i = (if double_overflows (of_int i) then Inl OverflowError else Inr (Fin (of_int i)))"

fun digitpart_tail :: "string \<Rightarrow> bool" where
  "digitpart_tail [] = True"
| "digitpart_tail [c] = is_digit c"
| "digitpart_tail (c # d # cs) =
     (if c = CHR ''_'' then is_digit d \<and> digitpart_tail cs
      else is_digit c \<and> digitpart_tail (d # cs))"

definition digitpart :: "string \<Rightarrow> bool" where
  "digitpart s = (case s of [] \<Rightarrow> False | c # cs \<Rightarrow> is_digit c \<and> digitpart_tail cs)"

definition digits_value :: "string \<Rightarrow> nat" where
  "digits_value s = foldl (\<lambda>a c. 10 * a + ((of_char c :: nat) - 48)) 0 (filter is_digit s)"

definition split_at :: "(char \<Rightarrow> bool) \<Rightarrow> string \<Rightarrow> string \<times> string option" where
  "split_at p s = (case dropWhile (\<lambda>c. \<not> p c) s of
       [] \<Rightarrow> (s, None)
     | _ # r \<Rightarrow> (takeWhile (\<lambda>c. \<not> p c) s, Some r))"

definition take_sign :: "string \<Rightarrow> bool \<times> string" where
  "take_sign s = (case s of
       c # cs \<Rightarrow> (if c = CHR ''-'' then (True, cs) else if c = CHR ''+'' then (False, cs) else (False, s))
     | [] \<Rightarrow> (False, s))"

definition scale10 :: "rat \<Rightarrow> int \<Rightarrow> rat" where
  "scale10 m e = (if 0 \<le> e then m * 10 ^ nat e else m / 10 ^ nat (- e))"

definition float_number :: "string \<Rightarrow> pyerr + rat" where
  "float_number s =
     (let (mant, ex) = split_at (\<lambda>c. c = CHR ''e'' \<or> c = CHR ''E'') s;
          (ip, fp) = split_at (\<lambda>c. c = CHR ''.'') mant;
          fr = (case fp of None \<Rightarrow> [] | Some f \<Rightarrow> f);
          mant_ok = (if ip = [] then digitpart fr
                     else digitpart ip \<and> (fr = [] \<or> digitpart fr));
          (eneg, ed) = (case ex of None \<Rightarrow> (False, ''0'') | Some e \<Rightarrow> take_sign e);
          ev = int (digits_value ed)
      in if mant_ok \<and> digitpart ed
         then Inr (scale10 (of_nat (digits_value (ip @ fr)))
                     ((if eneg then - ev else ev) - int (length (filter is_digit fr))))
         else Inl ValueError)"

definition py_float :: "string \<Rightarrow> pyerr + pyfloat" where
  "py_float s =
     (let (neg, t) = take_sign (strip_where is_float_space s); w = lower t
      in if w = ''inf'' \<or> w = ''infinity'' then Inr (if neg then NInf else PInf)
         else if w = ''nan'' then Inr NaN
         else (case float_number t of
                 Inl e \<Rightarrow> Inl e
               | Inr q \<Rightarrow> Inr (double_of_rat (if neg then - q else q))))"

section \<open>Value normalizer\<close>

text \<open>\<open>pd.isna(x)\<close> and \<open>str(x)\<close> on a cell.\<close>

fun isna :: "cell \<Rightarrow> bool" where
  "isna Null = True"
| "isna (FloatC NaN) = True"
| "isna _ = False"

fun str_nat :: "nat \<Rightarrow> string" where
  "str_nat n = (if n < 10 then [char_of (48 + n)] else str_nat (n div 10) @ [char_of (48 + n mod 10)])"

declare str_nat.simps [simp del]

definition str_int :: "int \<Rightarrow> string" where
  "str_int i = (if i < 0 then CHR ''-'' # str_nat (nat (- i)) else str_nat (nat i))"

fun str_cell :: "pylib \<Rightarrow> cell \<Rightarrow> string" where
  "str_cell L Null = ''nan''"
| "str_cell L (IntC i) = str_int i"
| "str_cell L (FloatC f) = repr_float L f"
| "str_cell L (Str s) = s"
| "str_cell L (Stamp t) = str_stamp L t"

text \<open>\<open>re.search(r"\d+,\d{3}", s)\<close>: some digit is followed by a comma and three digits.\<close>

fun thousands_group :: "string \<Rightarrow> bool" where
  "thousands_group (d # c # x # y # z # r) =
     ((is_digit d \<and> c = CHR '','' \<and> is_digit x \<and> is_digit y \<and> is_digit z)
      \<or> thousands_group (c # x # y # z # r))"
| "thousands_group _ = False"

text \<open>The text that \<open>parse_num\<close> hands to \<open>float\<close>.\<close>

definition num_text :: "string \<Rightarrow> string" where
  "num_text s0 =
     (let s = remove_char CHR '' '' s0
      in if thousands_group s \<and> CHR ''.'' \<notin> set s
         then remove_char CHR '','' s
         else replace_char CHR '','' CHR ''.'' (remove_char CHR ''.'' s))"

text \<open>
  \<open>parse_num\<close> of \<open>_to_number\<close>. The two nested \<open>try\<close> blocks are written out: an
  exception of \<open>float\<close> hands over to \<open>pd.to_numeric\<close>, an exception there gives \<open>0.0\<close>.
  The conversion of a numeric cell stands before the \<open>try\<close>: its exception is not caught.
\<close>

definition parse_num :: "pylib \<Rightarrow> cell \<Rightarrow> pyerr + pyfloat" where
  "parse_num L x =
     (if isna x then Inr (Fin 0)
      else case x of
          IntC i \<Rightarrow> float_of_int i
        | FloatC f \<Rightarrow> Inr f
        | _ \<Rightarrow> (case py_float (num_text (str_cell L x)) of
                  Inr v \<Rightarrow> Inr v
                | Inl _ \<Rightarrow> (case to_numeric L (num_text (str_cell L x)) of
                             Inr v \<Rightarrow> Inr v
                           | Inl _ \<Rightarrow> Inr (Fin 0))))"

text \<open>\<open>Series.apply(f)\<close> stops at the first exception; \<open>fillna(0.0)\<close> replaces not-a-number.\<close>

fun apply_series :: "('a \<Rightarrow> pyerr + 'b) \<Rightarrow> 'a list \<Rightarrow> pyerr + 'b list" where
  "apply_series f [] = Inr []"
| "apply_series f (x # xs) =
     (case f x of
        Inl e \<Rightarrow> Inl e
      | Inr y \<Rightarrow> (case apply_series f xs of Inl e \<Rightarrow> Inl e | Inr ys \<Rightarrow> Inr (y # ys)))"

definition fillna0 :: "pyfloat \<Rightarrow> pyfloat" where
  "fillna0 v = (if v = NaN then Fin 0 else v)"

definition to_number :: "pylib \<Rightarrow> cell list \<Rightarrow> pyerr + pyfloat list" where
  "to_number L series =
     (case apply_series (parse_num L) series of
        Inl e \<Rightarrow> Inl e
      | Inr vs \<Rightarrow> Inr (map fillna0 vs))"

text \<open>
  \<open>parse_one\<close> of \<open>_to_datetime\<close>: the loop over the formats returns the first result that
  is not an exception, and \<open>NaT\<close> when every call raised.
\<close>

definition date_formats :: "string option list" where
  "date_formats = [None, Some ''%d/%m/%Y'', Some ''%Y-%m-%d'', Some ''%d-%m-%Y'',
     Some ''%m/%d/%Y'', Some ''%d/%m/%Y %H:%M:%S'', Some ''%Y-%m-%d %H:%M:%S'']"

fun first_parse :: "pylib \<Rightarrow> string \<Rightarrow> string option list \<Rightarrow> timestamp option" where
  "first_parse L s [] = None"
| "first_parse L s (fmt # fmts) =
     (case to_datetime L fmt s of
        Inr d \<Rightarrow> d
      | Inl _ \<Rightarrow> first_parse L s fmts)"

definition parse_one :: "pylib \<Rightarrow> cell \<Rightarrow> pyerr + timestamp option" where
  "parse_one L x =
     (if isna x then Inr None
      else case x of
          Stamp t \<Rightarrow> Inr (Some t)
        | _ \<Rightarrow> Inr (first_parse L (strip (str_cell L x)) date_formats))"

definition to_datetime_series :: "pylib \<Rightarrow> cell list \<Rightarrow> pyerr + timestamp option list" where
  "to_datetime_series L series = apply_series (parse_one L) series"

section \<open>Frames\<close>

text \<open>Sequencing of steps that may raise.\<close>

definition bind_err :: "pyerr + 'a \<Rightarrow> ('a \<Rightarrow> pyerr + 'b) \<Rightarrow> pyerr + 'b" where
  "bind_err m f = (case m of Inl e \<Rightarrow> Inl e | Inr v \<Rightarrow> f v)"

text \<open>The truth value of an optional label: \<open>None\<close> and the empty string are false.\<close>

fun truthy :: "string option \<Rightarrow> bool" where
  "truthy None = False"
| "truthy (Some h) = (h \<noteq> [])"

text \<open>
  \<open>df[label]\<close>: the cells of the column, one per row; a label that is not a column raises.
  For a label that several columns bear, \<open>df[label]\<close> is a frame, not a series, and each use
  that the program makes of it raises; the model raises at the lookup. A row shorter than
  the header is padded with missing cells.
\<close>

fun index_of :: "string \<Rightarrow> string list \<Rightarrow> nat" where
  "index_of h [] = 0"
| "index_of h (c # cs) = (if h = c then 0 else Suc (index_of h cs))"

definition cell_at :: "cell list \<Rightarrow> nat \<Rightarrow> cell" where
  "cell_at r i = (if i < length r then r ! i else Null)"

definition getcol :: "dataframe \<Rightarrow> string \<Rightarrow> pyerr + cell list" where
  "getcol df h =
     (if h \<in> set (columns df)
      then (if count_list (columns df) h = 1
            then Inr (map (\<lambda>r. cell_at r (index_of h (columns df))) (rows df))
            else Inl NotASeries)
      else Inl KeyError)"

text \<open>The cell of row \<open>i\<close> in the column \<open>h\<close>.\<close>

definition cell_of :: "dataframe \<Rightarrow> nat \<Rightarrow> string \<Rightarrow> cell" where
  "cell_of df i h = cell_at (rows df ! i) (index_of h (columns df))"

section \<open>Direction and amount resolver\<close>

text \<open>Subtraction and the two comparisons with zero on floats.\<close>

fun fsub :: "pyfloat \<Rightarrow> pyfloat \<Rightarrow> pyfloat" where
  "fsub (Fin a) (Fin b) = Fin (a - b)"
| "fsub NaN _ = NaN"
| "fsub _ NaN = NaN"
| "fsub PInf PInf = NaN"
| "fsub NInf NInf = NaN"
| "fsub PInf _ = PInf"
| "fsub NInf _ = NInf"
| "fsub (Fin a) PInf = NInf"
| "fsub (Fin a) NInf = PInf"

fun gt0 :: "pyfloat \<Rightarrow> bool" where
  "gt0 (Fin q) = (0 < q)"
| "gt0 PInf = True"
| "gt0 _ = False"

fun lt0 :: "pyfloat \<Rightarrow> bool" where
  "lt0 (Fin q) = (q < 0)"
| "lt0 NInf = True"
| "lt0 _ = False"

definition kw_in :: "string list" where
  "kw_in = [''credito'', ''cr'', ''ingreso'', ''abono'', ''deposito'', ''dep'', ''acred'']"

definition kw_out :: "string list" where
  "kw_out = [''debito'', ''db'', ''egreso'', ''pago'', ''transferencia_saliente'',
     ''extraccion'', ''cheque'']"

definition type_direction :: "string \<Rightarrow> string" where
  "type_direction t =
     (if any_in kw_in t then ''in'' else (if any_in kw_out t then ''out'' else ''zero''))"

definition sign_based :: "pyfloat \<Rightarrow> string" where
  "sign_based v = (if gt0 v then ''in'' else (if lt0 v then ''out'' else ''zero''))"

text \<open>\<open>direction.mask(direction == "zero", sign_based)\<close>, row by row.\<close>

definition mask_zero :: "string list \<Rightarrow> string list \<Rightarrow> string list" where
  "mask_zero direction sign = map2 (\<lambda>d s. if d = ''zero'' then s else d) direction sign"

definition detect_direction_and_amount ::
  "pylib \<Rightarrow> dataframe \<Rightarrow> string option \<Rightarrow> string option \<Rightarrow> string option \<Rightarrow> string option
     \<Rightarrow> pyerr + (pyfloat list \<times> string list)" where
  "detect_direction_and_amount L df col_importe col_credito col_debito col_tipo =
     bind_err
       (if truthy col_credito \<and> truthy col_debito then
          bind_err (bind_err (getcol df (the col_credito)) (to_number L)) (\<lambda>credito.
          bind_err (bind_err (getcol df (the col_debito)) (to_number L)) (\<lambda>debito.
          Inr (map2 fsub credito debito)))
        else if col_importe \<noteq> None then
          bind_err (getcol df (the col_importe)) (to_number L)
        else Inr (replicate (length (rows df)) (Fin 0)))
       (\<lambda>importe.
     bind_err
       (if truthy col_tipo then
          bind_err (getcol df (the col_tipo)) (\<lambda>tipos.
          Inr (map (\<lambda>c. type_direction (lower (str_cell L c))) tipos))
        else Inr (replicate (length (rows df)) ''zero''))
       (\<lambda>direction.
     Inr (importe, mask_zero direction (map sign_based importe))))"

section \<open>Row classifier and sheet builder\<close>

text \<open>\<open>categorize_rows\<close>: the two keyword masks over the description column.\<close>

definition categorize_rows ::
  "pylib \<Rightarrow> session \<Rightarrow> dataframe \<Rightarrow> string \<Rightarrow> pyerr + (bool list \<times> bool list)" where
  "categorize_rows L S df detalle_col =
     bind_err (getcol df detalle_col) (\<lambda>cells.
       let detalle = map (\<lambda>c. lower (str_cell L c)) cells
       in Inr (map (any_in (kw_comisiones S)) detalle, map (any_in (kw_impuestos S)) detalle))"

text \<open>
  A row of the frame \<open>base\<close>, with its index label, the two keyword masks and the
  direction stored next to it.
\<close>

record base_row =
  ix :: nat
  fecha :: "timestamp option"
  referencia :: string
  nombre :: string
  cuit :: string
  detalle :: string
  importe :: pyfloat
  is_comision :: bool
  is_impuesto :: bool
  dir :: string

text \<open>
  Rows of sheets 1 and 2 (index, date, reference, name, tax id, amount) and of sheets 3, 4
  and 5 (index, date, reference, detail, amount).
\<close>

type_synonym pay_row = "nat \<times> timestamp option \<times> string \<times> string \<times> string \<times> pyfloat"
type_synonym debit_row = "nat \<times> timestamp option \<times> string \<times> string \<times> pyfloat"

definition pay_of :: "base_row \<Rightarrow> pay_row" where
  "pay_of b = (ix b, fecha b, referencia b, nombre b, cuit b, importe b)"

definition debit_of :: "base_row \<Rightarrow> debit_row" where
  "debit_of b = (ix b, fecha b, referencia b, detalle b, importe b)"

definition unidentified_of :: "base_row \<Rightarrow> debit_row" where
  "unidentified_of b = (ix b, fecha b, referencia b, ''Sin Identificacion'', importe b)"

text \<open>
  \<open>sort_values(by=[date, "referencia"], kind="stable", na_position="last")\<close>: a stable sort
  on the date, missing dates last, then on the reference.
\<close>

definition sort_key_of :: "timestamp option \<Rightarrow> string \<Rightarrow> nat \<times> timestamp \<times> string" where
  "sort_key_of d r = (case d of None \<Rightarrow> (1, (0, 0, 0, 0, 0, 0), r) | Some t \<Rightarrow> (0, t, r))"

definition sort_if_date_pay :: "pay_row list \<Rightarrow> pay_row list" where
  "sort_if_date_pay sh = sort_key (\<lambda>(i, d, r, n, c, a). sort_key_of d r) sh"

definition sort_if_date_debit :: "debit_row list \<Rightarrow> debit_row list" where
  "sort_if_date_debit sh = sort_key (\<lambda>(i, d, r, t, a). sort_key_of d r) sh"

text \<open>A column that was not resolved is a series of empty strings.\<close>

definition col_or_blank :: "dataframe \<Rightarrow> string option \<Rightarrow> pyerr + cell list" where
  "col_or_blank df col =
     (if truthy col then getcol df (the col) else Inr (replicate (length (rows df)) (Str [])))"

text \<open>The frame \<open>base\<close>, one row per index; the series are taken to cover the frame's index.\<close>

definition base_row_at ::
  "pylib \<Rightarrow> timestamp option list \<Rightarrow> cell list \<Rightarrow> cell list \<Rightarrow> cell list \<Rightarrow> cell list
     \<Rightarrow> pyfloat list \<Rightarrow> bool list \<Rightarrow> bool list \<Rightarrow> string list \<Rightarrow> nat \<Rightarrow> base_row" where
  "base_row_at L fecha_out ref_out nombre_out cuit_out detalle_out importe_out com imp ds i =
     \<lparr>ix = i, fecha = fecha_out ! i,
      referencia = str_cell L (ref_out ! i),
      nombre = str_cell L (nombre_out ! i),
      cuit = str_cell L (cuit_out ! i),
      detalle = str_cell L (detalle_out ! i),
      importe = importe_out ! i,
      is_comision = com ! i, is_impuesto = imp ! i, dir = ds ! i\<rparr>"

definition base_rows ::
  "pylib \<Rightarrow> timestamp option list \<Rightarrow> cell list \<Rightarrow> cell list \<Rightarrow> cell list \<Rightarrow> cell list
     \<Rightarrow> pyfloat list \<Rightarrow> bool list \<Rightarrow> bool list \<Rightarrow> string list \<Rightarrow> nat \<Rightarrow> base_row list" where
  "base_rows L fecha_out ref_out nombre_out cuit_out detalle_out importe_out com imp ds n =
     map (base_row_at L fecha_out ref_out nombre_out cuit_out detalle_out importe_out com imp ds)
       [0..<n]"

text \<open>
  The column whose text is matched against the keywords:
  \<open>detalle_col if detalle_col else ref_col if ref_col else df.columns[0]\<close>.
\<close>

definition category_col :: "dataframe \<Rightarrow> string option \<Rightarrow> string option \<Rightarrow> pyerr + string" where
  "category_col df detalle_col ref_col =
     (if truthy detalle_col then Inr (the detalle_col)
      else if truthy ref_col then Inr (the ref_col)
      else (case columns df of [] \<Rightarrow> Inl IndexError | c # _ \<Rightarrow> Inr c))"

definition is_remaining :: "base_row \<Rightarrow> bool" where
  "is_remaining b = (\<not> (is_comision b \<or> is_impuesto b))"

definition build_output_sheets ::
  "pylib \<Rightarrow> session \<Rightarrow> dataframe \<Rightarrow> string option \<Rightarrow> string option \<Rightarrow> string option
     \<Rightarrow> string option \<Rightarrow> string option \<Rightarrow> pyfloat list \<Rightarrow> string list
     \<Rightarrow> pyerr + (pay_row list \<times> pay_row list \<times> debit_row list \<times> debit_row list \<times> debit_row list)" where
  "build_output_sheets L S df fecha_col ref_col nombre_col cuit_col detalle_col
       importe_series direction_series =
     bind_err (if truthy fecha_col
               then bind_err (getcol df (the fecha_col)) (to_datetime_series L)
               else Inr (replicate (length (rows df)) None)) (\<lambda>fecha_out.
     bind_err (col_or_blank df ref_col) (\<lambda>ref_out.
     bind_err (col_or_blank df nombre_col) (\<lambda>nombre_out.
     bind_err (col_or_blank df cuit_col) (\<lambda>cuit_out.
     bind_err (col_or_blank df detalle_col) (\<lambda>detalle_out.
     bind_err (category_col df detalle_col ref_col) (\<lambda>cat_col.
     bind_err (categorize_rows L S df cat_col) (\<lambda>(com, imp).
       let base = base_rows L fecha_out ref_out nombre_out cuit_out detalle_out
                    importe_series com imp direction_series (length (rows df));
           remaining = filter is_remaining base;
           sh1 = map pay_of (filter (\<lambda>b. dir b = ''in'') remaining);
           sh2 = map pay_of (filter (\<lambda>b. dir b = ''out'') remaining);
           sh3 = map debit_of (filter is_comision base);
           sh4 = map debit_of (filter is_impuesto base);
           sh5 = map unidentified_of
                   (filter (\<lambda>b. dir b = ''zero'' \<or> (strip (nombre b) = [] \<and> strip (cuit b) = []))
                      remaining)
       in Inr (sort_if_date_pay sh1, sort_if_date_pay sh2, sort_if_date_debit sh3,
               sort_if_date_debit sh4, sort_if_date_debit sh5))))))))"

text \<open>The index labels of the rows of a sheet.\<close>

definition ixs :: "(nat \<times> 'a) list \<Rightarrow> nat set" where
  "ixs sh = fst ` set sh"

text \<open>
  Row by row, what the masks of \<open>build_output_sheets\<close> test: the description text of row
  \<open>i\<close> in the keyword column \<open>cat\<close> holds a fee keyword, or a tax keyword; the text of an
  optional column, empty when the column was not resolved; name and tax id are both blank.
\<close>

definition fee_row :: "pylib \<Rightarrow> session \<Rightarrow> dataframe \<Rightarrow> string \<Rightarrow> nat \<Rightarrow> bool" where
  "fee_row L S df cat i = any_in (kw_comisiones S) (lower (str_cell L (cell_of df i cat)))"

definition tax_row :: "pylib \<Rightarrow> session \<Rightarrow> dataframe \<Rightarrow> string \<Rightarrow> nat \<Rightarrow> bool" where
  "tax_row L S df cat i = any_in (kw_impuestos S) (lower (str_cell L (cell_of df i cat)))"

definition field_text :: "pylib \<Rightarrow> dataframe \<Rightarrow> string option \<Rightarrow> nat \<Rightarrow> string" where
  "field_text L df col i = (if truthy col then str_cell L (cell_of df i (the col)) else [])"

definition blank_counterparty ::
  "pylib \<Rightarrow> dataframe \<Rightarrow> string option \<Rightarrow> string option \<Rightarrow> nat \<Rightarrow> bool" where
  "blank_counterparty L df nombre_col cuit_col i =
     (strip (field_text L df nombre_col i) = [] \<and> strip (field_text L df cuit_col i) = [])"

text \<open>
  A field of row \<open>i\<close> is a blank text when its column is not resolved, so that the sheet
  builder fills it with the empty string, or when its cell is a string that is empty or
  white space only. A missing cell is not a blank text: \<open>astype(str)\<close> turns it into \<open>nan\<close>.
\<close>

fun blank_str :: "cell \<Rightarrow> bool" where
  "blank_str (Str s) = (strip s = [])"
| "blank_str _ = False"

definition blank_text :: "dataframe \<Rightarrow> string option \<Rightarrow> nat \<Rightarrow> bool" where
  "blank_text df col i = (if truthy col then blank_str (cell_of df i (the col)) else True)"

section \<open>Column resolver\<close>

text \<open>
  \<open>re.sub(r"[^a-zA-Z0-9]+", "_", s)\<close>: every run of other characters becomes one
  underscore. The flag says that the previous character was part of such a run.
\<close>

fun sub_runs :: "bool \<Rightarrow> string \<Rightarrow> string" where
  "sub_runs in_run [] = []"
| "sub_runs in_run (c # cs) =
     (if is_alnum_ascii c then c # sub_runs False cs
      else if in_run then sub_runs True cs
      else CHR ''_'' # sub_runs True cs)"

definition slug :: "pylib \<Rightarrow> string \<Rightarrow> string" where
  "slug L s0 =
     (let s = strip s0;
          s = nfkd_ascii L s
      in strip_where (\<lambda>c. c = CHR ''_'') (sub_runs False (lower s)))"

text \<open>
  The dictionary \<open>{ _slug(c): c for c in df.columns }\<close>: the labels are entered in order, a
  later label replaces an earlier one with the same slug.
\<close>

definition slug_to_orig :: "pylib \<Rightarrow> string list \<Rightarrow> (string \<rightharpoonup> string)" where
  "slug_to_orig L cols = fold (\<lambda>c m. m(slug L c \<mapsto> c)) cols Map.empty"

fun find_col :: "(string \<rightharpoonup> string) \<Rightarrow> string list \<Rightarrow> string option" where
  "find_col m [] = None"
| "find_col m (c # cands) = (case m c of Some h \<Rightarrow> Some h | None \<Rightarrow> find_col m cands)"

definition fecha_cands :: "string list" where
  "fecha_cands = [''fecha'', ''fecha_operacion'', ''fecha_mov'', ''fecha_debito'',
     ''fecha_credito'', ''date'', ''posting_date'']"

definition ref_cands :: "string list" where
  "ref_cands = [''referencia'', ''n_operacion'', ''nro_operacion'', ''numero_operacion'',
     ''n_referencia'', ''detalle'', ''descripcion'', ''concepto'', ''glosa'',
     ''referencia_bancaria'', ''ref'', ''memo'']"

definition nombre_cands :: "string list" where
  "nombre_cands = [''nombre'', ''nombre_pagador'', ''pagador'', ''cliente'', ''emisor'',
     ''beneficiario'', ''proveedor'', ''titular'', ''contraparte'', ''razon_social'']"

definition cuit_cands :: "string list" where
  "cuit_cands = [''cuit'', ''cuil'', ''dni'', ''tax_id'', ''doc'', ''documento'', ''id_fiscal'']"

definition detalle_cands :: "string list" where
  "detalle_cands = [''detalle'', ''descripcion'', ''concepto'', ''glosa'', ''referencia'',
     ''observaciones'']"

definition credito_cands :: "string list" where
  "credito_cands = [''credito'', ''creditos'', ''haber'', ''entrada'', ''ingreso'',
     ''acreditacion'', ''amount_in'', ''in'']"

definition debito_cands :: "string list" where
  "debito_cands = [''debito'', ''debitos'', ''debe'', ''salida'', ''egreso'', ''extraccion'',
     ''amount_out'', ''out'']"

definition importe_cands :: "string list" where
  "importe_cands = [''importe'', ''monto'', ''importe_total'', ''importe_neto'',
     ''importe_bruto'', ''importe_movimiento'', ''monto_total'', ''amount'',
     ''transaction_amount'']"

definition tipo_cands :: "string list" where
  "tipo_cands = [''tipo'', ''tipo_movimiento'', ''operacion'', ''movimiento'', ''cr_db'',
     ''debe_haber'']"

text \<open>All candidate slugs of all roles.\<close>

definition all_cands :: "string list" where
  "all_cands = fecha_cands @ ref_cands @ nombre_cands @ cuit_cands @ detalle_cands
     @ credito_cands @ debito_cands @ importe_cands @ tipo_cands"

text \<open>
  \<open>guess_columns\<close> returns, in this order: date, reference, name, tax id, description,
  amount, credit, debit, type.
\<close>

definition guess_columns ::
  "pylib \<Rightarrow> dataframe \<Rightarrow> string option \<times> string option \<times> string option \<times> string option
     \<times> string option \<times> string option \<times> string option \<times> string option \<times> string option" where
  "guess_columns L df =
     (let m = slug_to_orig L (columns df);
          fecha_col = find_col m fecha_cands;
          ref_col = find_col m ref_cands;
          nombre_col = find_col m nombre_cands;
          cuit_col = find_col m cuit_cands;
          detalle_col = find_col m detalle_cands;
          credito_col = find_col m credito_cands;
          debito_col = find_col m debito_cands;
          importe_col = find_col m importe_cands;
          tipo_col = find_col m tipo_cands;
          detalle_col = (if detalle_col = None
                         then (if truthy ref_col then ref_col
                               else (case columns df of [] \<Rightarrow> None | c # _ \<Rightarrow> Some c))
                         else detalle_col)
      in (fecha_col, ref_col, nombre_col, cuit_col, detalle_col, importe_col, credito_col,
          debito_col, tipo_col))"

text \<open>
  The resolution of one role as the specification words it, with the label that the
  dictionary keeps: the candidates are scanned in priority order, and for the first
  candidate that is the slug of some label, the last label with that slug is the answer.
\<close>

definition role_header :: "pylib \<Rightarrow> string list \<Rightarrow> string list \<Rightarrow> string option" where
  "role_header L cols cands =
     (case List.find (\<lambda>c. c \<in> set (map (slug L) cols)) cands of
        None \<Rightarrow> None
      | Some c \<Rightarrow> Some (last (filter (\<lambda>h. slug L h = c) cols)))"

section \<open>The pipeline\<close>

definition process_dataframe ::
  "pylib \<Rightarrow> session \<Rightarrow> dataframe
     \<Rightarrow> pyerr + (pay_row list \<times> pay_row list \<times> debit_row list \<times> debit_row list \<times> debit_row list)" where
  "process_dataframe L S df0 =
     (let df = df0\<lparr>columns := map strip (columns df0)\<rparr>
      in case guess_columns L df of
           (fecha_col, ref_col, nombre_col, cuit_col, detalle_col, importe_col, credito_col,
            debito_col, tipo_col) \<Rightarrow>
         bind_err (detect_direction_and_amount L df importe_col credito_col debito_col tipo_col)
           (\<lambda>(importe, direction).
         build_output_sheets L S df fecha_col ref_col nombre_col cuit_col detalle_col
           importe direction))"

section \<open>A library instance for the examples\<close>

text \<open>
  The examples below run the model on ASCII text. For them the accent folding is the
  identity on ASCII characters, the date parser knows one text, and \<open>pd.to_numeric\<close> finds
  no number; the printing of floats and timestamps is not reached.
\<close>

definition example_lib :: pylib where
  "example_lib =
     \<lparr>nfkd_ascii = filter (\<lambda>c. (of_char c :: nat) < 128),
      repr_float = (\<lambda>_. ''nan''),
      str_stamp = (\<lambda>_. ''NaT''),
      to_datetime = (\<lambda>fmt s. if s = ''31/01/2024'' \<and> (fmt = None \<or> fmt = Some ''%d/%m/%Y'')
                               then Inr (Some (2024, 1, 31, 0, 0, 0)) else Inl ValueError),
      to_numeric = (\<lambda>_. Inr NaN)\<rparr>"

definition example_session :: session where
  "example_session = \<lparr>kw_comisiones = [''comision'', ''cargo''], kw_impuestos = [''impuesto'', ''iva'']\<rparr>"

section \<open>Number parsing on the three sample texts\<close>

lemmas string_eval = strip_def strip_where_def is_space_def is_digit_def lower_def
  lower_char_def remove_char_def replace_char_def any_in_def char_of_def bit_iff_odd

lemma double_of_rat_mid:
  "1 / 1000000 \<le> \<bar>q\<bar> \<Longrightarrow> \<bar>q\<bar> \<le> 1000000000000 \<Longrightarrow> double_of_rat q = Fin q"
  by (simp add: double_of_rat_def double_overflows_def)

lemma double_of_rat_zero: "double_of_rat 0 = Fin 0"
  by (simp add: double_of_rat_def double_overflows_def)

lemmas float_eval = py_float_def float_number_def split_at_def take_sign_def digitpart_def
  digits_value_def scale10_def is_float_space_def double_of_rat_mid double_of_rat_zero

text \<open>
  C4. The number parser maps the text \<open>1.234,56\<close> to 1234.56 and the text \<open>1,234,567\<close>
  to 1234567.0. On the text \<open>1,234.56\<close> the pattern of a comma followed by three digits
  is found, but the text holds a dot, so the other branch runs: the dot is removed and the
  comma becomes the decimal point, and the result is 1.23456, not 1234.56.
\<close>

theorem C4_to_number_samples:
  "to_number L [Str ''1.234,56'', Str ''1,234.56'', Str ''1,234,567'']
     = Inr [Fin 1234.56, Fin 1.23456, Fin 1234567]"
  by (simp add: to_number_def parse_num_def num_text_def fillna0_def string_eval float_eval)

section \<open>Parsing and its exceptions\<close>

lemma bind_err_simps [simp]: "bind_err (Inl e) f = Inl e" "bind_err (Inr v) f = f v"
  by (simp_all add: bind_err_def)

lemma parse_num_Inl:
  assumes "parse_num L x = Inl e"
  shows "\<exists>i. x = IntC i \<and> double_overflows (of_int i) \<and> e = OverflowError"
proof (cases x)
  case (FloatC f)
  with assms show ?thesis by (cases f) (simp_all add: parse_num_def)
next
  case (IntC i)
  with assms show ?thesis
    by (simp add: parse_num_def float_of_int_def split: if_splits)
qed (use assms in \<open>auto simp: parse_num_def split: sum.splits\<close>)

lemma parse_num_in_range:
  assumes "\<And>i. x = IntC i \<Longrightarrow> \<not> double_overflows (of_int i)"
  shows "\<exists>v. parse_num L x = Inr v"
proof (cases "parse_num L x")
  case (Inl e)
  from parse_num_Inl [OF Inl] assms show ?thesis by blast
next
  case (Inr v)
  then show ?thesis by blast
qed

lemma parse_one_total: "\<exists>d. parse_one L x = Inr d"
proof (cases x)
  case (FloatC f)
  then show ?thesis by (cases f) (simp_all add: parse_one_def)
qed (auto simp: parse_one_def)

lemma apply_series_total:
  assumes "\<And>x. \<exists>y. f x = Inr y"
  shows "apply_series f xs = Inr (map (\<lambda>x. projr (f x)) xs)"
proof (induction xs)
  case Nil
  show ?case by simp
next
  case (Cons x xs)
  from assms obtain y where "f x = Inr y" by blast
  with Cons show ?case by simp
qed

lemma fillna0_not_nan: "fillna0 v \<noteq> NaN" "NaN \<noteq> fillna0 v"
  by (simp_all add: fillna0_def)

lemma apply_series_Inr_length: "apply_series f xs = Inr ys \<Longrightarrow> length ys = length xs"
  by (induction xs arbitrary: ys) (auto split: sum.splits)

lemma apply_series_Inl:
  "apply_series f xs = Inl e \<Longrightarrow> \<exists>x\<in>set xs. f x = Inl e"
  by (induction xs) (auto split: sum.splits)

lemma apply_series_all_Inr:
  "(\<And>x. x \<in> set xs \<Longrightarrow> \<exists>y. f x = Inr y) \<Longrightarrow> \<exists>ys. apply_series f xs = Inr ys"
proof (cases "apply_series f xs")
  case (Inl e)
  assume "\<And>x. x \<in> set xs \<Longrightarrow> \<exists>y. f x = Inr y"
  with apply_series_Inl [OF Inl] show ?thesis by fastforce
next
  case (Inr ys)
  then show ?thesis by blast
qed

lemma to_number_Inr_length: "to_number L xs = Inr vs \<Longrightarrow> length vs = length xs"
  by (auto simp: to_number_def apply_series_Inr_length split: sum.splits)

lemma to_number_Inr_not_nan: "to_number L xs = Inr vs \<Longrightarrow> NaN \<notin> set vs"
  by (auto simp: to_number_def fillna0_not_nan split: sum.splits)

lemma to_number_Inl:
  assumes "to_number L xs = Inl e"
  shows "e = OverflowError \<and> (\<exists>i. IntC i \<in> set xs \<and> double_overflows (of_int i))"
proof -
  from assms have "apply_series (parse_num L) xs = Inl e"
    by (simp add: to_number_def split: sum.splits)
  from apply_series_Inl [OF this] obtain x where "x \<in> set xs" "parse_num L x = Inl e"
    by blast
  with parse_num_Inl [of L x e] show ?thesis by blast
qed

lemma to_number_in_range:
  assumes "\<And>i. IntC i \<in> set xs \<Longrightarrow> \<not> double_overflows (of_int i)"
  shows "\<exists>vs. to_number L xs = Inr vs \<and> length vs = length xs \<and> NaN \<notin> set vs"
proof (cases "to_number L xs")
  case (Inl e)
  from to_number_Inl [OF Inl] assms show ?thesis by blast
next
  case (Inr vs)
  with to_number_Inr_length [OF Inr] to_number_Inr_not_nan [OF Inr] show ?thesis by blast
qed

lemma to_datetime_series_eq:
  "to_datetime_series L xs = Inr (map (\<lambda>x. projr (parse_one L x)) xs)"
  by (simp add: to_datetime_series_def apply_series_total [OF parse_one_total])

lemma first_parse_all_raise:
  "\<forall>fmt\<in>set fmts. isl (to_datetime L fmt s) \<Longrightarrow> first_parse L s fmts = None"
  by (induction fmts) (auto split: sum.splits)




lemma getcol_Inr:
  "getcol df h = Inr cs \<Longrightarrow> cs = map (\<lambda>r. cell_at r (index_of h (columns df))) (rows df)"
  by (auto simp: getcol_def split: if_splits)

lemma detect_importe_length:
  assumes "detect_direction_and_amount L df col_importe col_credito col_debito col_tipo
             = Inr (amts, dirs)"
  shows "length amts = length (rows df)"
  using assms
  by (auto simp: detect_direction_and_amount_def getcol_def bind_err_def
           dest!: to_number_Inr_length split: if_splits sum.splits)

lemma detect_direction_eq:
  assumes "detect_direction_and_amount L df col_importe col_credito col_debito col_tipo
             = Inr (amts, dirs)"
  shows "dirs = mask_zero
           (if truthy col_tipo
            then map (\<lambda>r. type_direction (lower (str_cell L
                       (cell_at r (index_of (the col_tipo) (columns df)))))) (rows df)
            else replicate (length (rows df)) ''zero'')
           (map sign_based amts)"
  using assms
  by (auto simp: detect_direction_and_amount_def getcol_def bind_err_def comp_def
           split: if_splits sum.splits)



lemmas frame_eval = getcol_def cell_at_def col_or_blank_def base_rows_def base_row_at_def
  category_col_def is_remaining_def
  pay_of_def debit_of_def unidentified_of_def sort_key_of_def sort_if_date_pay_def
  sort_if_date_debit_def mask_zero_def type_direction_def sign_based_def kw_in_def kw_out_def

lemmas number_eval = to_number_def parse_num_def num_text_def fillna0_def


text \<open>
  C10. With a credit and a debit column, the amount is the difference of the two parsed
  cells, and the difference is not passed through \<open>fillna\<close> again. The texts \<open>inf\<close> and
  \<open>inf\<close> parse to infinity each, their difference is not-a-number, which is neither
  positive nor negative: the direction is \<open>zero\<close> and the amount is not 0.0.
\<close>

theorem C10_zero_direction_nan_amount:
  "detect_direction_and_amount L
     \<lparr>columns = [''credito'', ''debito''], rows = [[Str ''inf'', Str ''inf'']]\<rparr>
     None (Some ''credito'') (Some ''debito'') None = Inr ([NaN], [''zero''])"
  by (simp add: detect_direction_and_amount_def frame_eval number_eval string_eval float_eval)

text \<open>
  What holds in general: the direction is one of \<open>in\<close>, \<open>out\<close>, \<open>zero\<close>; with the direction
  \<open>zero\<close> the amount is 0.0 or not-a-number; and without the credit and debit pair no
  amount is not-a-number.
\<close>

lemma detect_zero_amount:
  assumes "detect_direction_and_amount L df ci cc cd ct = Inr (amts, dirs)"
    and "i < length (rows df)" and "dirs ! i = ''zero''"
  shows "amts ! i = Fin 0 \<or> amts ! i = NaN"
proof -
  have len: "length amts = length (rows df)"
    using assms(1) by (rule detect_importe_length)
  from assms(3) have "sign_based (amts ! i) = ''zero''"
    unfolding detect_direction_eq [OF assms(1)]
    using assms(2) len by (simp add: mask_zero_def split: if_splits)
  then show ?thesis
    by (cases "amts ! i") (auto simp: sign_based_def split: if_splits)
qed

lemma detect_single_amount_not_nan:
  assumes "detect_direction_and_amount L df ci cc cd ct = Inr (amts, dirs)"
    and "\<not> (truthy cc \<and> truthy cd)"
  shows "NaN \<notin> set amts"
  using assms
  by (auto simp: detect_direction_and_amount_def bind_err_def
        dest!: to_number_Inr_not_nan split: if_splits sum.splits)



lemmas resolver_eval = guess_columns_def slug_to_orig_def slug_def is_alnum_ascii_def
  fecha_cands_def ref_cands_def nombre_cands_def cuit_cands_def detalle_cands_def
  credito_cands_def debito_cands_def importe_cands_def tipo_cands_def

lemmas pipeline_eval = process_dataframe_def detect_direction_and_amount_def
  build_output_sheets_def categorize_rows_def to_datetime_series_def parse_one_def
  example_lib_def example_session_def

text \<open>
  Date parsing returns a value for every cell, and number parsing for every cell other
  than an integer outside the range of a double; a text that every date format rejects
  gives the null date, and a text that \<open>float\<close> rejects and \<open>pd.to_numeric\<close> rejects or
  coerces to not-a-number gives 0.0.
\<close>

lemma date_parsing_total:
  "(\<exists>d. parse_one L x = Inr d)
   \<and> (\<exists>ds. to_datetime_series L xs = Inr ds \<and> length ds = length xs)"
  using parse_one_total [of L x] by (simp add: to_datetime_series_eq)

lemma date_parsing_fallback:
  assumes "\<forall>fmt\<in>set date_formats. isl (to_datetime L fmt (strip s))"
  shows "to_datetime_series L [Str s] = Inr [None]"
  using first_parse_all_raise [OF assms]
  by (simp add: to_datetime_series_def parse_one_def)

lemma number_parsing_fallback:
  assumes "isl (py_float (num_text s))"
    and "isl (to_numeric L (num_text s)) \<or> to_numeric L (num_text s) = Inr NaN"
  shows "to_number L [Str s] = Inr [Fin 0]"
  using assms by (auto simp: to_number_def parse_num_def fillna0_def isl_def)

lemma huge_int_overflows: "double_overflows (of_int (10 ^ 400))"
proof -
  have "(2::rat) ^ 1024 \<le> 16 ^ 400"
  proof -
    have "(16::rat) ^ 400 = 2 ^ 1600"
      using power_mult [of "2::rat" 4 400] by simp
    then show ?thesis by (simp add: power_increasing)
  qed
  also have "(16::rat) ^ 400 \<le> 10 ^ 400 * 2 ^ 400"
    by (simp add: power_mult_distrib [symmetric] power_mono)
  finally have "(2::rat) ^ 1024 \<le> 10 ^ 400 * 2 ^ 400" .
  have "(2::rat) ^ 1024 \<le> 10 ^ 400"
  proof -
    have "(2::rat) ^ 1024 \<le> 2 ^ 1200" by (simp add: power_increasing)
    also have "(2::rat) ^ 1200 = 8 ^ 400"
      using power_mult [of "2::rat" 3 400] by simp
    also have "(8::rat) ^ 400 \<le> 10 ^ 400" by (simp add: power_mono)
    finally show ?thesis .
  qed
  moreover have "(0::rat) \<le> 2 ^ 970" by simp
  ultimately have "(2::rat) ^ 1024 - 2 ^ 970 \<le> 10 ^ 400" by linarith
  then show ?thesis by (simp add: double_overflows_def)
qed

text \<open>
  C8. A number parse does abort the run on one kind of cell: an integer cell beyond the
  range of a double. \<open>parse_num\<close> converts a numeric cell by \<open>float(x)\<close> before its \<open>try\<close>
  blocks, so the \<open>OverflowError\<close> of the integer \<open>10^400\<close> is not caught: it leaves \<open>parse_num\<close>,
  \<open>_to_number\<close> and \<open>detect_direction_and_amount\<close>, and the whole run on a table with the one
  column \<open>importe\<close> holding that integer ends with it.
\<close>

theorem C8_huge_integer_aborts:
  "parse_num L (IntC (10 ^ 400)) = Inl OverflowError
   \<and> to_number L [Str ''150,00'', IntC (10 ^ 400)] = Inl OverflowError
   \<and> detect_direction_and_amount L
        \<lparr>columns = [''importe''], rows = [[IntC (10 ^ 400)]]\<rparr>
        (Some ''importe'') None None None = Inl OverflowError
   \<and> process_dataframe example_lib example_session
        \<lparr>columns = [''importe''], rows = [[IntC (10 ^ 400)]]\<rparr> = Inl OverflowError"
proof -
  have p: "parse_num L (IntC k) = Inl OverflowError" if "k = 10 ^ 400" for L k
    unfolding that using huge_int_overflows by (simp add: parse_num_def float_of_int_def)
  have s: "parse_num L (Str ''150,00'') = Inr (Fin 150)"
    by (simp add: parse_num_def num_text_def string_eval float_eval)
  have n: "to_number L [Str ''150,00'', IntC (10 ^ 400)] = Inl OverflowError"
    by (simp add: to_number_def p s)
  have d: "detect_direction_and_amount L \<lparr>columns = [''importe''], rows = [[IntC k]]\<rparr>
        (Some ''importe'') None None None = Inl OverflowError" if "k = 10 ^ 400" for L k
    by (simp add: detect_direction_and_amount_def getcol_def to_number_def p [OF that]
          frame_eval)
  have g: "guess_columns example_lib \<lparr>columns = [''importe''], rows = rs\<rparr>
             = (None, None, None, None, Some ''importe'', Some ''importe'', None, None, None)"
    for rs
    by (simp add: resolver_eval example_lib_def string_eval)
  have r: "process_dataframe example_lib example_session
        \<lparr>columns = [''importe''], rows = [[IntC (10 ^ 400)]]\<rparr> = Inl OverflowError"
    by (simp add: process_dataframe_def Let_def g d string_eval)
  from p [OF refl, of L] n d [OF refl, of L] r show ?thesis by simp
qed

section \<open>The column resolver\<close>

lemma slug_to_orig_snoc:
  "slug_to_orig L (cols @ [h]) = (slug_to_orig L cols)(slug L h \<mapsto> h)"
  by (simp add: slug_to_orig_def)

lemma slug_to_orig_lookup:
  "slug_to_orig L cols c =
     (if c \<in> set (map (slug L) cols) then Some (last (filter (\<lambda>h. slug L h = c) cols)) else None)"
proof (induction cols rule: rev_induct)
  case Nil
  show ?case by (simp add: slug_to_orig_def)
next
  case (snoc h cols)
  show ?case by (auto simp: slug_to_orig_snoc snoc)
qed

lemma find_col_role_header: "find_col (slug_to_orig L cols) cands = role_header L cols cands"
proof (induction cands)
  case Nil
  show ?case by (simp add: role_header_def)
next
  case (Cons c cands)
  then show ?case by (simp add: role_header_def slug_to_orig_lookup)
qed

lemma role_header_None:
  "(role_header L cols cands = None) = (set (map (slug L) cols) \<inter> set cands = {})"
proof -
  have "(role_header L cols cands = None)
      = (List.find (\<lambda>c. c \<in> set (map (slug L) cols)) cands = None)"
    by (simp add: role_header_def split: option.splits)
  also have "\<dots> = (set (map (slug L) cols) \<inter> set cands = {})"
    unfolding find_None_iff by auto
  finally show ?thesis .
qed

lemma last_filter_split:
  "filter P xs \<noteq> [] \<Longrightarrow>
     \<exists>before after. xs = before @ last (filter P xs) # after \<and> (\<forall>y\<in>set after. \<not> P y)"
proof (induction xs rule: rev_induct)
  case Nil
  then show ?case by simp
next
  case (snoc x xs)
  show ?case
  proof (cases "P x")
    case True
    then have "xs @ [x] = xs @ last (filter P (xs @ [x])) # [] \<and> (\<forall>y\<in>set []. \<not> P y)" by simp
    then show ?thesis by blast
  next
    case False
    with snoc obtain before after
      where "xs = before @ last (filter P xs) # after" "\<forall>y\<in>set after. \<not> P y" by auto
    with False have "xs @ [x] = before @ last (filter P (xs @ [x])) # (after @ [x])
        \<and> (\<forall>y\<in>set (after @ [x]). \<not> P y)" by simp
    then show ?thesis by blast
  qed
qed

lemma find_split:
  "List.find P xs = Some x \<Longrightarrow> \<exists>pre post. xs = pre @ x # post \<and> P x \<and> (\<forall>y\<in>set pre. \<not> P y)"
proof (induction xs)
  case Nil
  then show ?case by simp
next
  case (Cons a xs)
  show ?case
  proof (cases "P a")
    case True
    with Cons.prems have "a # xs = [] @ x # xs \<and> P x \<and> (\<forall>y\<in>set []. \<not> P y)" by simp
    then show ?thesis by blast
  next
    case False
    with Cons obtain pre post where "xs = pre @ x # post" "P x" "\<forall>y\<in>set pre. \<not> P y" by auto
    with False have "a # xs = (a # pre) @ x # post \<and> P x \<and> (\<forall>y\<in>set (a # pre). \<not> P y)" by simp
    then show ?thesis by blast
  qed
qed

lemma role_header_Some:
  assumes "role_header L cols cands = Some h"
  shows "(\<exists>pre post. cands = pre @ slug L h # post \<and> set pre \<inter> set (map (slug L) cols) = {})
     \<and> (\<exists>before after. cols = before @ h # after \<and> slug L h \<notin> set (map (slug L) after))"
proof -
  from assms obtain c where f: "List.find (\<lambda>c. c \<in> set (map (slug L) cols)) cands = Some c"
    and h: "h = last (filter (\<lambda>h. slug L h = c) cols)"
    by (auto simp: role_header_def split: option.splits)
  from find_split [OF f] obtain pre post where c: "cands = pre @ c # post"
    "c \<in> set (map (slug L) cols)" "\<forall>y\<in>set pre. y \<notin> set (map (slug L) cols)" by blast
  from c(2) have ne: "filter (\<lambda>h. slug L h = c) cols \<noteq> []"
    by (auto simp: filter_empty_conv)
  from last_in_set [OF ne] h have sl: "slug L h = c" by auto
  from last_filter_split [OF ne] h obtain before after where
    ba: "cols = before @ h # after" "\<forall>y\<in>set after. slug L y \<noteq> c" by blast
  from c sl have "cands = pre @ slug L h # post \<and> set pre \<inter> set (map (slug L) cols) = {}"
    by auto
  then have one: "\<exists>pre post. cands = pre @ slug L h # post
      \<and> set pre \<inter> set (map (slug L) cols) = {}" by blast
  from ba sl have "cols = before @ h # after \<and> slug L h \<notin> set (map (slug L) after)"
    by auto
  then have two: "\<exists>before after. cols = before @ h # after
      \<and> slug L h \<notin> set (map (slug L) after)" by blast
  from one two show ?thesis by blast
qed

text \<open>
  C7, as stated, fails on the labels \<open>Fecha\<close>, \<open>FECHA\<close>: both have the slug \<open>fecha\<close>, and the
  date role goes to the second label, not the first; no label matches a description
  candidate, and the description role is resolved all the same, to the first label.
\<close>

theorem C7_guess_columns_counterexample:
  "guess_columns example_lib \<lparr>columns = [''Fecha'', ''FECHA''], rows = []\<rparr>
     = (Some ''FECHA'', None, None, None, Some ''Fecha'', None, None, None, None)"
  by (simp add: resolver_eval string_eval example_lib_def)

text \<open>
  C7, amended. Every role of \<open>guess_columns\<close> is resolved by \<open>role_header\<close> on its candidate
  list, the description role falling back to the reference label and then to the first
  label. A role is unresolved by \<open>role_header\<close> exactly when no label has a slug among the
  candidates; otherwise the slug of the answer is the first candidate, in priority order,
  that is the slug of any label, and the answer is the last label, in input order, with
  that slug. As a function, the result depends on the labels only.
\<close>

theorem C7_guess_columns:
  "guess_columns L df =
     (let r = role_header L (columns df)
      in (r fecha_cands, r ref_cands, r nombre_cands, r cuit_cands,
          (case r detalle_cands of
             Some h \<Rightarrow> Some h
           | None \<Rightarrow> (if truthy (r ref_cands) then r ref_cands
                      else (case columns df of [] \<Rightarrow> None | c # _ \<Rightarrow> Some c))),
          r importe_cands, r credito_cands, r debito_cands, r tipo_cands))
   \<and> ((role_header L cols cands = None) = (set (map (slug L) cols) \<inter> set cands = {}))
   \<and> (\<forall>h. role_header L cols cands = Some h \<longrightarrow>
         (\<exists>pre post. cands = pre @ slug L h # post \<and> set pre \<inter> set (map (slug L) cols) = {})
         \<and> (\<exists>before after. cols = before @ h # after \<and> slug L h \<notin> set (map (slug L) after)))"
proof -
  have a: "guess_columns L df =
     (let r = role_header L (columns df)
      in (r fecha_cands, r ref_cands, r nombre_cands, r cuit_cands,
          (case r detalle_cands of
             Some h \<Rightarrow> Some h
           | None \<Rightarrow> (if truthy (r ref_cands) then r ref_cands
                      else (case columns df of [] \<Rightarrow> None | c # _ \<Rightarrow> Some c))),
          r importe_cands, r credito_cands, r debito_cands, r tipo_cands))"
    by (simp add: guess_columns_def find_col_role_header Let_def split: option.splits)
  from a role_header_None [of L cols cands] role_header_Some [of L cols cands]
  show ?thesis by blast
qed

theorem C7_guess_columns_witness:
  "role_header example_lib [''Importe'', ''Fecha'', ''FECHA''] fecha_cands = Some ''FECHA''
   \<and> (\<exists>pre post. fecha_cands = pre @ slug example_lib ''FECHA'' # post
         \<and> set pre \<inter> set (map (slug example_lib) [''Importe'', ''Fecha'', ''FECHA'']) = {})
   \<and> (\<exists>before after. [''Importe'', ''Fecha'', ''FECHA''] = before @ ''FECHA'' # after
         \<and> slug example_lib ''FECHA'' \<notin> set (map (slug example_lib) after))"
proof -
  have h: "role_header example_lib [''Importe'', ''Fecha'', ''FECHA''] fecha_cands = Some ''FECHA''"
    by (simp add: role_header_def resolver_eval string_eval example_lib_def)
  from C7_guess_columns [of example_lib _ "[''Importe'', ''Fecha'', ''FECHA'']" fecha_cands] h
  show ?thesis by blast
qed

section \<open>The sheets, row by row\<close>

lemma sheet_indices:
  assumes "\<And>i. fst (g (f i)) = i"
  shows "map fst (map g (filter P (map f [0..<n]))) = filter (\<lambda>i. P (f i)) [0..<n]"
proof -
  have "map fst (map g (filter P (map f [0..<n])))
      = map (\<lambda>i. fst (g (f i))) (filter (\<lambda>i. P (f i)) [0..<n])"
    by (simp add: filter_map comp_def)
  then show ?thesis by (simp add: assms)
qed

lemma ixs_sort_pay: "ixs (sort_if_date_pay sh) = ixs sh"
  by (simp add: ixs_def sort_if_date_pay_def)

lemma ixs_sort_debit: "ixs (sort_if_date_debit sh) = ixs sh"
  by (simp add: ixs_def sort_if_date_debit_def)

lemma distinct_map_sort_key:
  "distinct (map f (sort_key k xs)) = distinct (map f xs)"
  by (simp add: distinct_map)

lemma ixs_sheet:
  assumes "\<And>i. fst (g (f i)) = i"
  shows "ixs (map g (filter P (map f [0..<n]))) = {i. i < n \<and> P (f i)}"
proof -
  have "ixs (map g (filter P (map f [0..<n])))
      = set (map fst (map g (filter P (map f [0..<n]))))"
    by (simp only: ixs_def set_map)
  also have "\<dots> = {i. i < n \<and> P (f i)}"
    unfolding sheet_indices [of g f, OF assms] by auto
  finally show ?thesis .
qed

lemma distinct_sheet:
  assumes "\<And>i. fst (g (f i)) = i"
  shows "distinct (map fst (map g (filter P (map f [0..<n]))))"
  unfolding sheet_indices [of g f, OF assms] by simp

lemma length_sheet:
  "length (map g (filter P (map f [0..<n]))) = length (filter (\<lambda>i. P (f i)) [0..<n])"
  by (simp add: filter_map comp_def)

lemma fst_pay_of: "fst (pay_of (base_row_at L a b c d e f g h ds i)) = i"
  by (simp add: pay_of_def base_row_at_def)

lemma fst_debit_of: "fst (debit_of (base_row_at L a b c d e f g h ds i)) = i"
  by (simp add: debit_of_def base_row_at_def)

lemma fst_unidentified_of: "fst (unidentified_of (base_row_at L a b c d e f g h ds i)) = i"
  by (simp add: unidentified_of_def base_row_at_def)

lemma getcol_cat:
  "getcol df h = Inr cs \<Longrightarrow> i < length (rows df) \<Longrightarrow> cs ! i = cell_of df i h"
  by (auto simp: getcol_def cell_of_def split: if_splits)

lemma build_output_sheets_Inr:
  assumes "build_output_sheets L S df fc rc nc cc dc amts dirs = Inr (sh1, sh2, sh3, sh4, sh5)"
  shows "\<exists>fecha_out ref_out nombre_out cuit_out detalle_out cat com imp.
      category_col df dc rc = Inr cat
      \<and> col_or_blank df nc = Inr nombre_out \<and> col_or_blank df cc = Inr cuit_out
      \<and> categorize_rows L S df cat = Inr (com, imp)
      \<and> (let f = base_row_at L fecha_out ref_out nombre_out cuit_out detalle_out amts com imp dirs;
              n = length (rows df)
          in sh1 = sort_if_date_pay (map pay_of
                     (filter (\<lambda>b. dir b = ''in'') (filter is_remaining (map f [0..<n]))))
           \<and> sh2 = sort_if_date_pay (map pay_of
                     (filter (\<lambda>b. dir b = ''out'') (filter is_remaining (map f [0..<n]))))
           \<and> sh3 = sort_if_date_debit (map debit_of (filter is_comision (map f [0..<n])))
           \<and> sh4 = sort_if_date_debit (map debit_of (filter is_impuesto (map f [0..<n])))
           \<and> sh5 = sort_if_date_debit (map unidentified_of
                     (filter (\<lambda>b. dir b = ''zero'' \<or> (strip (nombre b) = [] \<and> strip (cuit b) = []))
                        (filter is_remaining (map f [0..<n])))))"
  using assms
  by (auto simp: build_output_sheets_def bind_err_def base_rows_def Let_def
           split: sum.splits if_splits prod.splits)

lemma categorize_rows_nth:
  assumes "categorize_rows L S df cat = Inr (com, imp)" and "i < length (rows df)"
  shows "com ! i = fee_row L S df cat i" and "imp ! i = tax_row L S df cat i"
  using assms
  by (auto simp: categorize_rows_def bind_err_def getcol_def fee_row_def tax_row_def
        cell_of_def Let_def split: sum.splits if_splits)

lemma col_or_blank_nth:
  assumes "col_or_blank df col = Inr cs" and "i < length (rows df)"
  shows "str_cell L (cs ! i) = field_text L df col i"
  using assms
  by (auto simp: col_or_blank_def getcol_def field_text_def cell_of_def split: if_splits)

lemma sheets_ixs:
  assumes run: "build_output_sheets L S df fc rc nc cc dc amts dirs = Inr (sh1, sh2, sh3, sh4, sh5)"
    and cat: "category_col df dc rc = Inr cat"
  shows "ixs sh1 = {i. i < length (rows df) \<and> \<not> fee_row L S df cat i \<and> \<not> tax_row L S df cat i
                      \<and> dirs ! i = ''in''}"
    and "ixs sh2 = {i. i < length (rows df) \<and> \<not> fee_row L S df cat i \<and> \<not> tax_row L S df cat i
                      \<and> dirs ! i = ''out''}"
    and "ixs sh3 = {i. i < length (rows df) \<and> fee_row L S df cat i}"
    and "ixs sh4 = {i. i < length (rows df) \<and> tax_row L S df cat i}"
    and "ixs sh5 = {i. i < length (rows df) \<and> \<not> fee_row L S df cat i \<and> \<not> tax_row L S df cat i
                      \<and> (dirs ! i = ''zero'' \<or> blank_counterparty L df nc cc i)}"
proof -
  from build_output_sheets_Inr [OF run] cat
  obtain fecha_out ref_out nombre_out cuit_out detalle_out com imp where
    nm: "col_or_blank df nc = Inr nombre_out" and cu: "col_or_blank df cc = Inr cuit_out"
    and ct: "categorize_rows L S df cat = Inr (com, imp)"
    and sh: "let f = base_row_at L fecha_out ref_out nombre_out cuit_out detalle_out amts com imp dirs;
              n = length (rows df)
          in sh1 = sort_if_date_pay (map pay_of
                     (filter (\<lambda>b. dir b = ''in'') (filter is_remaining (map f [0..<n]))))
           \<and> sh2 = sort_if_date_pay (map pay_of
                     (filter (\<lambda>b. dir b = ''out'') (filter is_remaining (map f [0..<n]))))
           \<and> sh3 = sort_if_date_debit (map debit_of (filter is_comision (map f [0..<n])))
           \<and> sh4 = sort_if_date_debit (map debit_of (filter is_impuesto (map f [0..<n])))
           \<and> sh5 = sort_if_date_debit (map unidentified_of
                     (filter (\<lambda>b. dir b = ''zero'' \<or> (strip (nombre b) = [] \<and> strip (cuit b) = []))
                        (filter is_remaining (map f [0..<n]))))"
    by auto
  let ?f = "base_row_at L fecha_out ref_out nombre_out cuit_out detalle_out amts com imp dirs"
  let ?n = "length (rows df)"
  have com: "is_comision (?f i) = fee_row L S df cat i"
    and imp: "is_impuesto (?f i) = tax_row L S df cat i"
    and rem: "is_remaining (?f i) = (\<not> fee_row L S df cat i \<and> \<not> tax_row L S df cat i)"
    and blank: "(strip (nombre (?f i)) = [] \<and> strip (cuit (?f i)) = [])
                  = blank_counterparty L df nc cc i"
    and dir: "dir (?f i) = dirs ! i"
    if "i < ?n" for i
    using that categorize_rows_nth [OF ct that] col_or_blank_nth [OF nm that, of L]
      col_or_blank_nth [OF cu that, of L]
    by (simp_all add: base_row_at_def is_remaining_def blank_counterparty_def)
  from sh have "ixs sh1 = {i. i < ?n \<and> is_remaining (?f i) \<and> dir (?f i) = ''in''}"
    by (simp add: Let_def ixs_sort_pay ixs_sheet [of pay_of ?f, OF fst_pay_of])
  then show "ixs sh1 = {i. i < ?n \<and> \<not> fee_row L S df cat i \<and> \<not> tax_row L S df cat i
                      \<and> dirs ! i = ''in''}"
    using rem dir by auto
  from sh have "ixs sh2 = {i. i < ?n \<and> is_remaining (?f i) \<and> dir (?f i) = ''out''}"
    by (simp add: Let_def ixs_sort_pay ixs_sheet [of pay_of ?f, OF fst_pay_of])
  then show "ixs sh2 = {i. i < ?n \<and> \<not> fee_row L S df cat i \<and> \<not> tax_row L S df cat i
                      \<and> dirs ! i = ''out''}"
    using rem dir by auto
  from sh have "ixs sh3 = {i. i < ?n \<and> is_comision (?f i)}"
    by (simp add: Let_def ixs_sort_debit ixs_sheet [of debit_of ?f, OF fst_debit_of])
  then show "ixs sh3 = {i. i < ?n \<and> fee_row L S df cat i}"
    using com by auto
  from sh have "ixs sh4 = {i. i < ?n \<and> is_impuesto (?f i)}"
    by (simp add: Let_def ixs_sort_debit ixs_sheet [of debit_of ?f, OF fst_debit_of])
  then show "ixs sh4 = {i. i < ?n \<and> tax_row L S df cat i}"
    using imp by auto
  from sh have "ixs sh5 = {i. i < ?n \<and> is_remaining (?f i)
      \<and> (dir (?f i) = ''zero'' \<or> (strip (nombre (?f i)) = [] \<and> strip (cuit (?f i)) = []))}"
    by (simp add: Let_def ixs_sort_debit ixs_sheet [of unidentified_of ?f, OF fst_unidentified_of])
  then show "ixs sh5 = {i. i < ?n \<and> \<not> fee_row L S df cat i \<and> \<not> tax_row L S df cat i
                      \<and> (dirs ! i = ''zero'' \<or> blank_counterparty L df nc cc i)}"
    using rem dir blank by auto
qed

lemma sheets_distinct:
  assumes run: "build_output_sheets L S df fc rc nc cc dc amts dirs = Inr (sh1, sh2, sh3, sh4, sh5)"
  shows "distinct (map fst sh1)" and "distinct (map fst sh2)" and "distinct (map fst sh3)"
    and "distinct (map fst sh4)" and "distinct (map fst sh5)"
proof -
  from build_output_sheets_Inr [OF run]
  obtain fecha_out ref_out nombre_out cuit_out detalle_out com imp where
    sh: "let f = base_row_at L fecha_out ref_out nombre_out cuit_out detalle_out amts com imp dirs;
              n = length (rows df)
          in sh1 = sort_if_date_pay (map pay_of
                     (filter (\<lambda>b. dir b = ''in'') (filter is_remaining (map f [0..<n]))))
           \<and> sh2 = sort_if_date_pay (map pay_of
                     (filter (\<lambda>b. dir b = ''out'') (filter is_remaining (map f [0..<n]))))
           \<and> sh3 = sort_if_date_debit (map debit_of (filter is_comision (map f [0..<n])))
           \<and> sh4 = sort_if_date_debit (map debit_of (filter is_impuesto (map f [0..<n])))
           \<and> sh5 = sort_if_date_debit (map unidentified_of
                     (filter (\<lambda>b. dir b = ''zero'' \<or> (strip (nombre b) = [] \<and> strip (cuit b) = []))
                        (filter is_remaining (map f [0..<n]))))"
    by auto
  let ?f = "base_row_at L fecha_out ref_out nombre_out cuit_out detalle_out amts com imp dirs"
  note d1 = distinct_sheet [of pay_of ?f, OF fst_pay_of]
  note d2 = distinct_sheet [of debit_of ?f, OF fst_debit_of]
  note d3 = distinct_sheet [of unidentified_of ?f, OF fst_unidentified_of]
  from sh d1 show "distinct (map fst sh1)"
    by (simp add: Let_def sort_if_date_pay_def distinct_map_sort_key del: map_map)
  from sh d1 show "distinct (map fst sh2)"
    by (simp add: Let_def sort_if_date_pay_def distinct_map_sort_key del: map_map)
  from sh d2 show "distinct (map fst sh3)"
    by (simp add: Let_def sort_if_date_debit_def distinct_map_sort_key del: map_map)
  from sh d2 show "distinct (map fst sh4)"
    by (simp add: Let_def sort_if_date_debit_def distinct_map_sort_key del: map_map)
  from sh d3 show "distinct (map fst sh5)"
    by (simp add: Let_def sort_if_date_debit_def distinct_map_sort_key del: map_map)
qed

lemma length_ixs: "distinct (map fst sh) \<Longrightarrow> length sh = card (ixs sh)"
  using distinct_card [of "map fst sh"] by (simp add: ixs_def)

lemma detect_direction_range:
  assumes "detect_direction_and_amount L df ci cc cd ct = Inr (amts, dirs)"
    and "i < length (rows df)"
  shows "dirs ! i = ''in'' \<or> dirs ! i = ''out'' \<or> dirs ! i = ''zero''"
proof -
  have len: "length amts = length (rows df)"
    using assms(1) by (rule detect_importe_length)
  show ?thesis
    unfolding detect_direction_eq [OF assms(1)]
    using assms(2) len
    by (simp add: mask_zero_def type_direction_def sign_based_def)
qed

lemma process_dataframe_Inr:
  assumes "process_dataframe L S df = Inr sheets"
  shows "\<exists>fc rc nc cc dc ic crc dbc tc amts dirs.
      guess_columns L (df\<lparr>columns := map strip (columns df)\<rparr>)
        = (fc, rc, nc, cc, dc, ic, crc, dbc, tc)
      \<and> detect_direction_and_amount L (df\<lparr>columns := map strip (columns df)\<rparr>) ic crc dbc tc
          = Inr (amts, dirs)
      \<and> build_output_sheets L S (df\<lparr>columns := map strip (columns df)\<rparr>) fc rc nc cc dc amts dirs
          = Inr sheets"
  using assms
  by (auto simp: process_dataframe_def Let_def bind_err_def split: prod.splits sum.splits)

lemma run_two_rows:
  "process_dataframe example_lib example_session
     \<lparr>columns = [''detalle'', ''importe''],
      rows = [[Str ''comision iva'', Str ''-10,00''], [Str ''venta'', Str ''150,00'']]\<rparr>
   = Inr ([(1, None, ''venta'', [], [], Fin 150)], [],
          [(0, None, ''comision iva'', ''comision iva'', Fin (- 10))],
          [(0, None, ''comision iva'', ''comision iva'', Fin (- 10))],
          [(1, None, ''venta'', ''Sin Identificacion'', Fin 150)])"
  by (simp add: pipeline_eval resolver_eval frame_eval number_eval string_eval float_eval)

text \<open>
  C1, as stated, fails on a table of two rows. Row 0 has a description with a fee keyword and
  a tax keyword, row 1 has an amount of 150 and neither a name nor a tax id column. Row 0 is
  in sheet 3 and in sheet 4, row 1 is in sheet 1 and in sheet 5: the five sheets hold four
  rows for two rows of input.
\<close>

theorem C1_rows_in_two_sheets:
  "process_dataframe example_lib example_session
     \<lparr>columns = [''detalle'', ''importe''],
      rows = [[Str ''comision iva'', Str ''-10,00''], [Str ''venta'', Str ''150,00'']]\<rparr>
   = Inr ([(1, None, ''venta'', [], [], Fin 150)], [],
          [(0, None, ''comision iva'', ''comision iva'', Fin (- 10))],
          [(0, None, ''comision iva'', ''comision iva'', Fin (- 10))],
          [(1, None, ''venta'', ''Sin Identificacion'', Fin 150)])"
  by (rule run_two_rows)

text \<open>
  C1, amended. When the run returns, every input row is in at least one of the five sheets,
  the sheets hold input rows only, and no sheet holds a row twice. Sheets 1 and 2 have no
  row in common, and none of the sheets 1, 2 and 5 has a row in common with sheet 3 or 4.
  The row counts of the five sheets sum to at least the number of input rows.
\<close>

theorem C1_sheets_cover_rows:
  assumes "process_dataframe L S df = Inr (sh1, sh2, sh3, sh4, sh5)"
  shows "(\<forall>i<length (rows df). i \<in> ixs sh1 \<union> ixs sh2 \<union> ixs sh3 \<union> ixs sh4 \<union> ixs sh5)
     \<and> ixs sh1 \<union> ixs sh2 \<union> ixs sh3 \<union> ixs sh4 \<union> ixs sh5 \<subseteq> {..<length (rows df)}
     \<and> distinct (map fst sh1) \<and> distinct (map fst sh2) \<and> distinct (map fst sh3)
     \<and> distinct (map fst sh4) \<and> distinct (map fst sh5)
     \<and> ixs sh1 \<inter> ixs sh2 = {}
     \<and> (ixs sh1 \<union> ixs sh2 \<union> ixs sh5) \<inter> (ixs sh3 \<union> ixs sh4) = {}
     \<and> length (rows df) \<le> length sh1 + length sh2 + length sh3 + length sh4 + length sh5"
proof -
  let ?df = "df\<lparr>columns := map strip (columns df)\<rparr>"
  from process_dataframe_Inr [OF assms]
  obtain fc rc nc cc dc ic crc dbc tc amts dirs where
    det: "detect_direction_and_amount L ?df ic crc dbc tc = Inr (amts, dirs)"
    and run: "build_output_sheets L S ?df fc rc nc cc dc amts dirs = Inr (sh1, sh2, sh3, sh4, sh5)"
    by blast
  from build_output_sheets_Inr [OF run] obtain cat where cat: "category_col ?df dc rc = Inr cat"
    by blast
  note mem = sheets_ixs [OF run cat]
  note dis = sheets_distinct [OF run]
  have n: "length (rows ?df) = length (rows df)" by simp
  have range: "dirs ! i = ''in'' \<or> dirs ! i = ''out'' \<or> dirs ! i = ''zero''"
    if "i < length (rows df)" for i
    using detect_direction_range [OF det] that by simp
  have total: "\<forall>i<length (rows df). i \<in> ixs sh1 \<union> ixs sh2 \<union> ixs sh3 \<union> ixs sh4 \<union> ixs sh5"
    using range by (auto simp: mem)
  have sub: "ixs sh1 \<union> ixs sh2 \<union> ixs sh3 \<union> ixs sh4 \<union> ixs sh5 \<subseteq> {..<length (rows df)}"
    by (auto simp: mem)
  have d12: "ixs sh1 \<inter> ixs sh2 = {}"
    by (auto simp: mem)
  have d34: "(ixs sh1 \<union> ixs sh2 \<union> ixs sh5) \<inter> (ixs sh3 \<union> ixs sh4) = {}"
    by (auto simp: mem)
  have "{..<length (rows df)} \<subseteq> ixs sh1 \<union> ixs sh2 \<union> ixs sh3 \<union> ixs sh4 \<union> ixs sh5"
    using total by auto
  with sub have eq: "ixs sh1 \<union> ixs sh2 \<union> ixs sh3 \<union> ixs sh4 \<union> ixs sh5 = {..<length (rows df)}"
    by auto
  have "length (rows df) = card (ixs sh1 \<union> ixs sh2 \<union> ixs sh3 \<union> ixs sh4 \<union> ixs sh5)"
    by (simp add: eq)
  also have "\<dots> \<le> card (ixs sh1) + card (ixs sh2) + card (ixs sh3) + card (ixs sh4) + card (ixs sh5)"
    by (meson card_Un_le add_le_mono1 order_trans)
  also have "\<dots> = length sh1 + length sh2 + length sh3 + length sh4 + length sh5"
    using dis by (simp add: length_ixs)
  finally have cnt: "length (rows df) \<le> length sh1 + length sh2 + length sh3 + length sh4 + length sh5" .
  from total sub dis d12 d34 cnt show ?thesis by blast
qed

theorem C1_sheets_cover_rows_witness:
  "process_dataframe example_lib example_session
     \<lparr>columns = [''detalle'', ''importe''],
      rows = [[Str ''comision iva'', Str ''-10,00''], [Str ''venta'', Str ''150,00'']]\<rparr>
   = Inr ([(1, None, ''venta'', [], [], Fin 150)], [],
          [(0, None, ''comision iva'', ''comision iva'', Fin (- 10))],
          [(0, None, ''comision iva'', ''comision iva'', Fin (- 10))],
          [(1, None, ''venta'', ''Sin Identificacion'', Fin 150)])
   \<and> ixs [(1, None, ''venta'', [], [], Fin 150)] \<inter> ixs ([] :: pay_row list) = {}
   \<and> length (rows \<lparr>columns = [''detalle'', ''importe''],
         rows = [[Str ''comision iva'', Str ''-10,00''], [Str ''venta'', Str ''150,00'']]\<rparr>)
       \<le> length [(1, None, ''venta'', [], [], Fin 150)] + length ([] :: pay_row list)
         + length [(0, None, ''comision iva'', ''comision iva'', Fin (- 10))]
         + length [(0, None, ''comision iva'', ''comision iva'', Fin (- 10))]
         + length [(1, None, ''venta'', ''Sin Identificacion'', Fin 150)]"
  using C1_sheets_cover_rows [OF run_two_rows] run_two_rows by (simp add: ixs_def)

lemma run_fee_tax:
  "build_output_sheets example_lib example_session
     \<lparr>columns = [''detalle'', ''importe''], rows = [[Str ''Comision IVA'', Str ''-10,00'']]\<rparr>
     None (Some ''detalle'') None None (Some ''detalle'') [Fin (- 10)] [''out'']
   = Inr ([], [],
          [(0, None, ''Comision IVA'', ''Comision IVA'', Fin (- 10))],
          [(0, None, ''Comision IVA'', ''Comision IVA'', Fin (- 10))],
          [])"
  by (simp add: pipeline_eval frame_eval string_eval)

lemma run_fee_tax_whole:
  "process_dataframe example_lib example_session
     \<lparr>columns = [''detalle'', ''importe''], rows = [[Str ''Comision IVA'', Str ''-10,00'']]\<rparr>
   = Inr ([], [],
          [(0, None, ''Comision IVA'', ''Comision IVA'', Fin (- 10))],
          [(0, None, ''Comision IVA'', ''Comision IVA'', Fin (- 10))],
          [])"
  by (simp add: pipeline_eval resolver_eval frame_eval number_eval string_eval float_eval)

text \<open>
  C2, as stated, fails on one row whose description, lower-cased, holds the fee keyword
  \<open>comision\<close> and the tax keyword \<open>iva\<close>: the row is in the fees sheet and also in the
  taxes sheet.
\<close>

theorem C2_fee_and_tax_row_in_both:
  "process_dataframe example_lib example_session
     \<lparr>columns = [''detalle'', ''importe''], rows = [[Str ''Comision IVA'', Str ''-10,00'']]\<rparr>
   = Inr ([], [],
          [(0, None, ''Comision IVA'', ''Comision IVA'', Fin (- 10))],
          [(0, None, ''Comision IVA'', ''Comision IVA'', Fin (- 10))],
          [])"
  by (rule run_fee_tax_whole)

text \<open>
  C2, amended. A row whose description text, lower-cased, contains a fee keyword and a tax
  keyword is in the fees sheet and in the taxes sheet, and in none of the sheets 1, 2
  and 5.
\<close>

theorem C2_fee_and_tax_row:
  assumes "build_output_sheets L S df fc rc nc cc dc amts dirs = Inr (sh1, sh2, sh3, sh4, sh5)"
    and "category_col df dc rc = Inr cat"
    and "i < length (rows df)"
    and "fee_row L S df cat i" and "tax_row L S df cat i"
  shows "i \<in> ixs sh3 \<and> i \<in> ixs sh4 \<and> i \<notin> ixs sh1 \<and> i \<notin> ixs sh2 \<and> i \<notin> ixs sh5"
  using assms(3-5) by (simp add: sheets_ixs [OF assms(1,2)])

theorem C2_fee_and_tax_row_witness:
  "fee_row example_lib example_session
     \<lparr>columns = [''detalle'', ''importe''], rows = [[Str ''Comision IVA'', Str ''-10,00'']]\<rparr>
     ''detalle'' 0
   \<and> tax_row example_lib example_session
     \<lparr>columns = [''detalle'', ''importe''], rows = [[Str ''Comision IVA'', Str ''-10,00'']]\<rparr>
     ''detalle'' 0
   \<and> 0 \<in> ixs [(0 :: nat, None :: timestamp option, ''Comision IVA'', ''Comision IVA'', Fin (- 10))]
   \<and> 0 \<notin> ixs ([] :: pay_row list) \<and> 0 \<notin> ixs ([] :: debit_row list)"
proof -
  let ?df = "\<lparr>columns = [''detalle'', ''importe''], rows = [[Str ''Comision IVA'', Str ''-10,00'']]\<rparr>"
  have cat: "category_col ?df (Some ''detalle'') (Some ''detalle'') = Inr ''detalle''"
    by (simp add: category_col_def)
  have i: "0 < length (rows ?df)" by simp
  have fee: "fee_row example_lib example_session ?df ''detalle'' 0"
    by (simp add: fee_row_def cell_of_def cell_at_def example_session_def string_eval)
  have tax: "tax_row example_lib example_session ?df ''detalle'' 0"
    by (simp add: tax_row_def cell_of_def cell_at_def example_session_def string_eval)
  from C2_fee_and_tax_row [OF run_fee_tax cat i fee tax] fee tax show ?thesis
    by (simp add: ixs_def)
qed

lemma run_blank:
  "build_output_sheets example_lib example_session
     \<lparr>columns = [''referencia'', ''nombre'', ''cuit'', ''importe''],
      rows = [[Str ''r1'', Str [], Str ''  '', Str ''150,00'']]\<rparr>
     None (Some ''referencia'') (Some ''nombre'') (Some ''cuit'') (Some ''referencia'')
     [Fin 150] [''in'']
   = Inr ([(0, None, ''r1'', [], ''  '', Fin 150)], [], [], [],
          [(0, None, ''r1'', ''Sin Identificacion'', Fin 150)])"
  by (simp add: pipeline_eval frame_eval string_eval)

lemma run_blank_whole:
  "process_dataframe example_lib example_session
     \<lparr>columns = [''referencia'', ''nombre'', ''cuit'', ''importe''],
      rows = [[Str ''r1'', Str [], Str ''  '', Str ''150,00'']]\<rparr>
   = Inr ([(0, None, ''r1'', [], ''  '', Fin 150)], [], [], [],
          [(0, None, ''r1'', ''Sin Identificacion'', Fin 150)])"
  by (simp add: pipeline_eval resolver_eval frame_eval number_eval string_eval float_eval)

text \<open>
  The same row with a missing name and a missing tax id: both fields read \<open>nan\<close>, which is
  not blank, and the row is in the received sheet only.
\<close>

lemma run_missing:
  "process_dataframe example_lib example_session
     \<lparr>columns = [''referencia'', ''nombre'', ''cuit'', ''importe''],
      rows = [[Str ''r1'', Null, Null, Str ''150,00'']]\<rparr>
   = Inr ([(0, None, ''r1'', ''nan'', ''nan'', Fin 150)], [], [], [], [])"
  by (simp add: pipeline_eval resolver_eval frame_eval number_eval string_eval float_eval)

lemma blank_text_counterparty:
  assumes "blank_text df nc i" and "blank_text df cc i"
  shows "blank_counterparty L df nc cc i"
proof -
  have "strip (field_text L df col i) = []" if "blank_text df col i" for col
  proof (cases "truthy col")
    case True
    with that have "blank_str (cell_of df i (the col))" by (simp add: blank_text_def)
    then show ?thesis
      by (cases "cell_of df i (the col)") (simp_all add: field_text_def True)
  next
    case False
    then show ?thesis by (simp add: field_text_def strip_def strip_where_def)
  qed
  with assms show ?thesis by (simp add: blank_counterparty_def)
qed

text \<open>
  C3, as stated, fails on one row with amount 150 (direction \<open>in\<close>), no keyword, an empty
  name and a tax id of two spaces: the row is in the unidentified sheet and also in the
  received sheet.
\<close>

theorem C3_blank_counterparty_row_in_both:
  "process_dataframe example_lib example_session
     \<lparr>columns = [''referencia'', ''nombre'', ''cuit'', ''importe''],
      rows = [[Str ''r1'', Str [], Str ''  '', Str ''150,00'']]\<rparr>
   = Inr ([(0, None, ''r1'', [], ''  '', Fin 150)], [], [], [],
          [(0, None, ''r1'', ''Sin Identificacion'', Fin 150)])"
  by (rule run_blank_whole)

text \<open>
  C3, amended. Take a row without fee or tax keyword whose name and tax id are both blank
  texts: each is a string cell that is empty or white space only, or its column is not
  resolved. The row is in the unidentified sheet and in neither the fees nor the taxes
  sheet; with direction \<open>in\<close> it is also in the received sheet (and not in the paid sheet),
  with direction \<open>out\<close> it is also in the paid sheet (and not in the received sheet). Nothing
  is said of a row whose name or tax id cell is missing or is not a string.
\<close>

theorem C3_blank_counterparty_row:
  assumes "build_output_sheets L S df fc rc nc cc dc amts dirs = Inr (sh1, sh2, sh3, sh4, sh5)"
    and "category_col df dc rc = Inr cat"
    and "i < length (rows df)"
    and "\<not> fee_row L S df cat i" and "\<not> tax_row L S df cat i"
    and "blank_text df nc i" and "blank_text df cc i"
  shows "i \<in> ixs sh5 \<and> i \<notin> ixs sh3 \<and> i \<notin> ixs sh4
     \<and> (dirs ! i = ''in'' \<longrightarrow> i \<in> ixs sh1 \<and> i \<notin> ixs sh2)
     \<and> (dirs ! i = ''out'' \<longrightarrow> i \<in> ixs sh2 \<and> i \<notin> ixs sh1)"
  using assms(3-5) blank_text_counterparty [OF assms(6,7), of L]
  by (simp add: sheets_ixs [OF assms(1,2)])

theorem C3_blank_counterparty_row_witness:
  "blank_text
     \<lparr>columns = [''referencia'', ''nombre'', ''cuit'', ''importe''],
      rows = [[Str ''r1'', Str [], Str ''  '', Str ''150,00'']]\<rparr> (Some ''nombre'') 0
   \<and> blank_text
     \<lparr>columns = [''referencia'', ''nombre'', ''cuit'', ''importe''],
      rows = [[Str ''r1'', Str [], Str ''  '', Str ''150,00'']]\<rparr> (Some ''cuit'') 0
   \<and> [''in''] ! 0 = ''in''
   \<and> 0 \<in> ixs [(0 :: nat, None :: timestamp option, ''r1'', ''Sin Identificacion'', Fin 150)]
   \<and> 0 \<in> ixs [(0 :: nat, None :: timestamp option, ''r1'', [] :: string, ''  '', Fin 150)]
   \<and> 0 \<notin> ixs ([] :: pay_row list)"
proof -
  let ?df = "\<lparr>columns = [''referencia'', ''nombre'', ''cuit'', ''importe''],
      rows = [[Str ''r1'', Str [], Str ''  '', Str ''150,00'']]\<rparr>"
  have cat: "category_col ?df (Some ''referencia'') (Some ''referencia'') = Inr ''referencia''"
    by (simp add: category_col_def)
  have i: "0 < length (rows ?df)" by simp
  have fee: "\<not> fee_row example_lib example_session ?df ''referencia'' 0"
    by (simp add: fee_row_def cell_of_def cell_at_def example_session_def string_eval)
  have tax: "\<not> tax_row example_lib example_session ?df ''referencia'' 0"
    by (simp add: tax_row_def cell_of_def cell_at_def example_session_def string_eval)
  have b1: "blank_text ?df (Some ''nombre'') 0"
    by (simp add: blank_text_def cell_of_def cell_at_def string_eval)
  have b2: "blank_text ?df (Some ''cuit'') 0"
    by (simp add: blank_text_def cell_of_def cell_at_def string_eval)
  have d: "[''in''] ! 0 = ''in''" by simp
  from C3_blank_counterparty_row [OF run_blank cat i fee tax b1 b2] b1 b2 d
  show ?thesis by (simp add: ixs_def)
qed

section \<open>A table in which no column resolves\<close>

lemma sheets_debit_amounts:
  assumes run: "build_output_sheets L S df fc rc nc cc dc amts dirs = Inr (sh1, sh2, sh3, sh4, sh5)"
    and r: "r \<in> set sh3 \<union> set sh4 \<union> set sh5"
  shows "\<exists>i<length (rows df). fst r = i \<and> snd (snd (snd (snd r))) = amts ! i"
proof -
  from build_output_sheets_Inr [OF run]
  obtain fecha_out ref_out nombre_out cuit_out detalle_out com imp where
    sh: "let f = base_row_at L fecha_out ref_out nombre_out cuit_out detalle_out amts com imp dirs;
              n = length (rows df)
          in sh1 = sort_if_date_pay (map pay_of
                     (filter (\<lambda>b. dir b = ''in'') (filter is_remaining (map f [0..<n]))))
           \<and> sh2 = sort_if_date_pay (map pay_of
                     (filter (\<lambda>b. dir b = ''out'') (filter is_remaining (map f [0..<n]))))
           \<and> sh3 = sort_if_date_debit (map debit_of (filter is_comision (map f [0..<n])))
           \<and> sh4 = sort_if_date_debit (map debit_of (filter is_impuesto (map f [0..<n])))
           \<and> sh5 = sort_if_date_debit (map unidentified_of
                     (filter (\<lambda>b. dir b = ''zero'' \<or> (strip (nombre b) = [] \<and> strip (cuit b) = []))
                        (filter is_remaining (map f [0..<n]))))"
    by auto
  from sh r show ?thesis
    by (auto simp: Let_def sort_if_date_debit_def debit_of_def unidentified_of_def base_row_at_def)
qed

lemma sheets_unidentified_detail:
  assumes run: "build_output_sheets L S df fc rc nc cc dc amts dirs = Inr (sh1, sh2, sh3, sh4, sh5)"
    and r: "r \<in> set sh5"
  shows "fst (snd (snd (snd r))) = ''Sin Identificacion''"
proof -
  from build_output_sheets_Inr [OF run]
  obtain fecha_out ref_out nombre_out cuit_out detalle_out com imp where
    sh: "let f = base_row_at L fecha_out ref_out nombre_out cuit_out detalle_out amts com imp dirs;
              n = length (rows df)
          in sh1 = sort_if_date_pay (map pay_of
                     (filter (\<lambda>b. dir b = ''in'') (filter is_remaining (map f [0..<n]))))
           \<and> sh2 = sort_if_date_pay (map pay_of
                     (filter (\<lambda>b. dir b = ''out'') (filter is_remaining (map f [0..<n]))))
           \<and> sh3 = sort_if_date_debit (map debit_of (filter is_comision (map f [0..<n])))
           \<and> sh4 = sort_if_date_debit (map debit_of (filter is_impuesto (map f [0..<n])))
           \<and> sh5 = sort_if_date_debit (map unidentified_of
                     (filter (\<lambda>b. dir b = ''zero'' \<or> (strip (nombre b) = [] \<and> strip (cuit b) = []))
                        (filter is_remaining (map f [0..<n]))))"
    by auto
  from sh r show ?thesis
    by (auto simp: Let_def sort_if_date_debit_def unidentified_of_def)
qed

lemma ixs_empty: "ixs sh = {} \<Longrightarrow> sh = []"
  by (simp add: ixs_def)

lemma guess_columns_no_role:
  assumes ne: "columns df = c0 # cs"
    and nomatch: "set (map (slug L) (columns df)) \<inter> set all_cands = {}"
  shows "guess_columns L df = (None, None, None, None, Some c0, None, None, None, None)"
proof -
  have none: "find_col (slug_to_orig L (columns df)) cands = None"
    if "set cands \<subseteq> set all_cands" for cands
    unfolding find_col_role_header role_header_None using nomatch that by blast
  have nine: "find_col (slug_to_orig L (columns df)) fecha_cands = None"
    "find_col (slug_to_orig L (columns df)) ref_cands = None"
    "find_col (slug_to_orig L (columns df)) nombre_cands = None"
    "find_col (slug_to_orig L (columns df)) cuit_cands = None"
    "find_col (slug_to_orig L (columns df)) detalle_cands = None"
    "find_col (slug_to_orig L (columns df)) credito_cands = None"
    "find_col (slug_to_orig L (columns df)) debito_cands = None"
    "find_col (slug_to_orig L (columns df)) importe_cands = None"
    "find_col (slug_to_orig L (columns df)) tipo_cands = None"
    by (rule none, (auto simp: all_cands_def)[1])+
  show ?thesis
    unfolding guess_columns_def Let_def nine by (simp add: ne)
qed

lemma detect_no_role:
  "detect_direction_and_amount L df None None None None
     = Inr (replicate (length (rows df)) (Fin 0), replicate (length (rows df)) ''zero'')"
  by (simp add: detect_direction_and_amount_def mask_zero_def sign_based_def)

lemma index_of_hd: "index_of c (c # cs) = 0"
  by simp

lemma build_no_role:
  assumes ne: "columns df = c0 # cs" and uniq: "c0 \<notin> set cs"
  shows "\<exists>sheets. build_output_sheets L S df None None None None (Some c0) amts dirs = Inr sheets"
proof -
  from uniq have one: "count_list (c0 # cs) c0 = 1" by simp
  have cat: "getcol df c0 = Inr (map (\<lambda>r. cell_at r 0) (rows df))"
    by (simp only: getcol_def ne one) simp
  show ?thesis
  proof (cases "c0 = []")
    case True
    then show ?thesis
      using cat
      by (simp add: build_output_sheets_def col_or_blank_def category_col_def
            categorize_rows_def ne Let_def)
  next
    case False
    then show ?thesis
      using cat
      by (simp add: build_output_sheets_def col_or_blank_def category_col_def
            categorize_rows_def ne Let_def)
  qed
qed

lemma category_col_no_role:
  "columns df = c0 # cs \<Longrightarrow> category_col df (Some c0) None = Inr c0"
  by (simp add: category_col_def)

lemma run_no_role:
  "guess_columns example_lib \<lparr>columns = [''xyz''], rows = [[Str ''comision'']]\<rparr>
     = (None, None, None, None, Some ''xyz'', None, None, None, None)
   \<and> process_dataframe example_lib example_session
       \<lparr>columns = [''xyz''], rows = [[Str ''comision'']]\<rparr>
     = Inr ([], [], [(0, None, [], ''comision'', Fin 0)], [], [])
   \<and> process_dataframe example_lib example_session \<lparr>columns = [], rows = []\<rparr>
     = Inl IndexError"
  by (simp add: pipeline_eval resolver_eval frame_eval number_eval string_eval float_eval)

text \<open>
  Two labels that are equal once stripped: the description falls back to the first of them,
  \<open>df[label]\<close> is then not a series and the run ends in an exception.
\<close>

lemma run_repeated_label:
  "process_dataframe example_lib example_session
     \<lparr>columns = [''xyz'', ''xyz ''], rows = [[Str ''a'', Str ''b'']]\<rparr> = Inl NotASeries"
  by (simp add: pipeline_eval resolver_eval frame_eval number_eval string_eval float_eval)

text \<open>
  C9, as stated, fails twice. On a table with the single column \<open>xyz\<close> no role resolves but
  the description falls back to that column; the row \<open>comision\<close> holds a fee keyword and goes
  to the fees sheet, not to the unidentified sheet. On a table without columns the run ends
  in an \<open>IndexError\<close>.
\<close>

theorem C9_no_role_counterexample:
  "guess_columns example_lib \<lparr>columns = [''xyz''], rows = [[Str ''comision'']]\<rparr>
     = (None, None, None, None, Some ''xyz'', None, None, None, None)
   \<and> process_dataframe example_lib example_session
       \<lparr>columns = [''xyz''], rows = [[Str ''comision'']]\<rparr>
     = Inr ([], [], [(0, None, [], ''comision'', Fin 0)], [], [])
   \<and> process_dataframe example_lib example_session \<lparr>columns = [], rows = []\<rparr>
     = Inl IndexError"
  by (rule run_no_role)

text \<open>
  C9, amended. Take a table with at least one row and at least one column, whose first
  label, stripped, is not the stripped form of any other label, and in which no stripped
  label has a slug among the candidates of any role. The run returns; the received and the
  paid sheet are empty; every row of the report has the amount 0.0; every row of the
  unidentified sheet has the detail \<open>Sin Identificacion\<close> and is there once; and a row is in
  the unidentified sheet exactly when the text of its first cell, lower-cased, contains
  neither a fee nor a tax keyword, in the fees sheet exactly when it contains a fee keyword,
  and in the taxes sheet exactly when it contains a tax keyword.
\<close>

theorem C9_no_role_resolves:
  assumes ne: "columns df \<noteq> []"
    and uniq: "strip (hd (columns df)) \<notin> set (map strip (tl (columns df)))"
    and nonempty: "rows df \<noteq> []"
    and nomatch: "set (map (slug L) (map strip (columns df))) \<inter> set all_cands = {}"
  shows "\<exists>sh3 sh4 sh5. process_dataframe L S df = Inr ([], [], sh3, sh4, sh5)
     \<and> (\<forall>r\<in>set sh3 \<union> set sh4 \<union> set sh5. snd (snd (snd (snd r))) = Fin 0)
     \<and> (\<forall>r\<in>set sh5. fst (snd (snd (snd r))) = ''Sin Identificacion'')
     \<and> distinct (map fst sh5)
     \<and> (\<forall>i<length (rows df).
          (i \<in> ixs sh5) =
            (\<not> any_in (kw_comisiones S) (lower (str_cell L (cell_at (rows df ! i) 0)))
             \<and> \<not> any_in (kw_impuestos S) (lower (str_cell L (cell_at (rows df ! i) 0))))
          \<and> (i \<in> ixs sh3) = any_in (kw_comisiones S) (lower (str_cell L (cell_at (rows df ! i) 0)))
          \<and> (i \<in> ixs sh4) = any_in (kw_impuestos S) (lower (str_cell L (cell_at (rows df ! i) 0))))"
proof -
  let ?df = "df\<lparr>columns := map strip (columns df)\<rparr>"
  let ?n = "length (rows df)"
  let ?amts = "replicate ?n (Fin 0)"
  let ?dirs = "replicate ?n ''zero''"
  from ne obtain c cs where cols: "columns df = c # cs" by (cases "columns df") auto
  let ?c0 = "strip c"
  have cols': "columns ?df = ?c0 # map strip cs" by (simp add: cols)
  from uniq have uniq': "?c0 \<notin> set (map strip cs)" by (simp add: cols)
  have g: "guess_columns L ?df = (None, None, None, None, Some ?c0, None, None, None, None)"
    using nomatch by (intro guess_columns_no_role [OF cols']) simp
  have d: "detect_direction_and_amount L ?df None None None None = Inr (?amts, ?dirs)"
    using detect_no_role [of L ?df] by simp
  from build_no_role [OF cols' uniq', of L S ?amts ?dirs]
  obtain sh1 sh2 sh3 sh4 sh5 where
    b: "build_output_sheets L S ?df None None None None (Some ?c0) ?amts ?dirs
          = Inr (sh1, sh2, sh3, sh4, sh5)"
    by (metis prod_cases5)
  have p: "process_dataframe L S df = Inr (sh1, sh2, sh3, sh4, sh5)"
    by (simp add: process_dataframe_def g d b)
  note mem = sheets_ixs [OF b category_col_no_role [OF cols']]
  have fee: "fee_row L S ?df ?c0 i
      = any_in (kw_comisiones S) (lower (str_cell L (cell_at (rows df ! i) 0)))"
    and tax: "tax_row L S ?df ?c0 i
      = any_in (kw_impuestos S) (lower (str_cell L (cell_at (rows df ! i) 0)))" for i
    by (simp_all add: fee_row_def tax_row_def cell_of_def cols)
  have "ixs sh1 = {}" "ixs sh2 = {}"
    by (auto simp: mem)
  then have e: "sh1 = []" "sh2 = []"
    by (simp_all add: ixs_empty)
  have am: "\<forall>r\<in>set sh3 \<union> set sh4 \<union> set sh5. snd (snd (snd (snd r))) = Fin 0"
  proof
    fix r assume "r \<in> set sh3 \<union> set sh4 \<union> set sh5"
    from sheets_debit_amounts [OF b this] show "snd (snd (snd (snd r))) = Fin 0"
      by auto
  qed
  have de: "\<forall>r\<in>set sh5. fst (snd (snd (snd r))) = ''Sin Identificacion''"
    using sheets_unidentified_detail [OF b] by blast
  have di: "distinct (map fst sh5)"
    using sheets_distinct(5) [OF b] .
  have rowwise: "\<forall>i<length (rows df).
          (i \<in> ixs sh5) =
            (\<not> any_in (kw_comisiones S) (lower (str_cell L (cell_at (rows df ! i) 0)))
             \<and> \<not> any_in (kw_impuestos S) (lower (str_cell L (cell_at (rows df ! i) 0))))
          \<and> (i \<in> ixs sh3) = any_in (kw_comisiones S) (lower (str_cell L (cell_at (rows df ! i) 0)))
          \<and> (i \<in> ixs sh4) = any_in (kw_impuestos S) (lower (str_cell L (cell_at (rows df ! i) 0)))"
    by (simp add: mem fee tax)
  from p e am de di rowwise show ?thesis by blast
qed

theorem C9_no_role_resolves_witness:
  "\<exists>sh3 sh4 sh5.
     process_dataframe example_lib example_session
       \<lparr>columns = [''xyz''], rows = [[Str ''comision''], [Str ''otro'']]\<rparr>
       = Inr ([], [], sh3, sh4, sh5)
     \<and> 0 \<in> ixs sh3 \<and> 0 \<notin> ixs sh5 \<and> 1 \<in> ixs sh5 \<and> 1 \<notin> ixs sh3 \<and> 1 \<notin> ixs sh4"
proof -
  let ?df = "\<lparr>columns = [''xyz''], rows = [[Str ''comision''], [Str ''otro'']]\<rparr>"
  have ne: "columns ?df \<noteq> []" by simp
  have uniq: "strip (hd (columns ?df)) \<notin> set (map strip (tl (columns ?df)))" by simp
  have nonempty: "rows ?df \<noteq> []" by simp
  have nomatch: "set (map (slug example_lib) (map strip (columns ?df))) \<inter> set all_cands = {}"
    by (simp add: all_cands_def resolver_eval string_eval example_lib_def)
  from C9_no_role_resolves [OF ne uniq nonempty nomatch, of example_session] show ?thesis
  proof (elim exE conjE)
    fix sh3 sh4 sh5
    assume run: "process_dataframe example_lib example_session ?df = Inr ([], [], sh3, sh4, sh5)"
      and rowwise: "\<forall>i<length (rows ?df).
          (i \<in> ixs sh5) =
            (\<not> any_in (kw_comisiones example_session)
                  (lower (str_cell example_lib (cell_at (rows ?df ! i) 0)))
             \<and> \<not> any_in (kw_impuestos example_session)
                  (lower (str_cell example_lib (cell_at (rows ?df ! i) 0))))
          \<and> (i \<in> ixs sh3) = any_in (kw_comisiones example_session)
                  (lower (str_cell example_lib (cell_at (rows ?df ! i) 0)))
          \<and> (i \<in> ixs sh4) = any_in (kw_impuestos example_session)
                  (lower (str_cell example_lib (cell_at (rows ?df ! i) 0)))"
    from rowwise have m: "0 \<in> ixs sh3 \<and> 0 \<notin> ixs sh5 \<and> 1 \<in> ixs sh5 \<and> 1 \<notin> ixs sh3 \<and> 1 \<notin> ixs sh4"
      by (simp add: cell_at_def example_session_def string_eval)
    from run m have "process_dataframe example_lib example_session ?df = Inr ([], [], sh3, sh4, sh5)
        \<and> 0 \<in> ixs sh3 \<and> 0 \<notin> ixs sh5 \<and> 1 \<in> ixs sh5 \<and> 1 \<notin> ixs sh3 \<and> 1 \<notin> ixs sh4"
      by (intro conjI) (elim conjE, assumption)+
    then show ?thesis by (intro exI)
  qed
qed

end
